theory Spec2Isabelle
  imports Main "HOL-Library.Word"
begin

section \<open>The serve command of the Fulcio server (cmd/app/serve.go)\<close>

text \<open>
  The development follows \<^verbatim>\<open>src/cmd/app/serve.go\<close>. Functions of that file are
  translated one by one under their own names. Everything serve.go calls but does not
  define (viper, pflag, the operating system, the CA backends, the CT client library, gRPC)
  is a field of the record \<open>world\<close> or a small model of the documented behaviour of the
  library, marked as such.
\<close>

subsection \<open>Constants\<close>

definition serveCmdEnvPrefix :: string where
  "serveCmdEnvPrefix = ''FULCIO_SERVE''"

definition defaultConfigPath :: string where
  "defaultConfigPath = ''/etc/fulcio-config/config.yaml''"

text \<open>\<^verbatim>\<open>const maxMsgSize int64 = 1 << 22 // 4MiB\<close>\<close>

definition maxMsgSize :: "64 word" where
  "maxMsgSize = push_bit 22 1"

text \<open>\<^verbatim>\<open>time.Duration\<close> counts nanoseconds in an \<^verbatim>\<open>int64\<close>.\<close>

type_synonym duration = "64 word"

definition Second :: duration where
  "Second = 1000000000"

subsection \<open>Functions of package strings and path/filepath used by serve.go\<close>

definition HasPrefix :: "string \<Rightarrow> string \<Rightarrow> bool" where
  "HasPrefix s p = (length p \<le> length s \<and> take (length p) s = p)"

definition HasSuffix :: "string \<Rightarrow> string \<Rightarrow> bool" where
  "HasSuffix s x = (length x \<le> length s \<and> drop (length s - length x) s = x)"

definition TrimPrefix :: "string \<Rightarrow> string \<Rightarrow> string" where
  "TrimPrefix s p = (if HasPrefix s p then drop (length p) s else s)"

definition TrimSuffix :: "string \<Rightarrow> string \<Rightarrow> string" where
  "TrimSuffix s x = (if HasSuffix s x then take (length s - length x) s else s)"

text \<open>
  \<^verbatim>\<open>filepath.Ext\<close>: the suffix beginning at the last dot of the last path element, empty
  when that element has no dot. The scan runs from the end of the path, as in Go; the
  second argument collects what has been passed.
\<close>

fun ExtScan :: "string \<Rightarrow> string \<Rightarrow> string" where
  "ExtScan [] passed = []"
| "ExtScan (c # before) passed =
     (if c = CHR ''/'' then []
      else if c = CHR ''.'' then c # passed
      else ExtScan before (c # passed))"

definition Ext :: "string \<Rightarrow> string" where
  "Ext path = ExtScan (rev path) []"

subsection \<open>Client signing algorithms\<close>

text \<open>
  \<^verbatim>\<open>v1.PublicKeyDetails\<close> is an enumeration of protobuf-specs. serve.go names seven of
  its members; every other member is \<open>PublicKeyDetails_Other\<close> with its number.
\<close>

datatype PublicKeyDetails =
    PKIX_ECDSA_P256_SHA_256
  | PKIX_ECDSA_P384_SHA_384
  | PKIX_ECDSA_P521_SHA_512
  | PKIX_RSA_PKCS1V15_2048_SHA256
  | PKIX_RSA_PKCS1V15_3072_SHA256
  | PKIX_RSA_PKCS1V15_4096_SHA256
  | PKIX_ED25519
  | PublicKeyDetails_Other int

text \<open>What the identifiers of the enumeration say: key algorithm, parameter, hash.\<close>

datatype curve = P256 | P384 | P521

datatype hash_algorithm = SHA_256 | SHA_384 | SHA_512

datatype signing_algorithm =
    ECDSA curve hash_algorithm
  | RSA_PKCS1V15 nat hash_algorithm
  | ED25519

fun algorithm_of :: "PublicKeyDetails \<Rightarrow> signing_algorithm option" where
  "algorithm_of PKIX_ECDSA_P256_SHA_256 = Some (ECDSA P256 SHA_256)"
| "algorithm_of PKIX_ECDSA_P384_SHA_384 = Some (ECDSA P384 SHA_384)"
| "algorithm_of PKIX_ECDSA_P521_SHA_512 = Some (ECDSA P521 SHA_512)"
| "algorithm_of PKIX_RSA_PKCS1V15_2048_SHA256 = Some (RSA_PKCS1V15 2048 SHA_256)"
| "algorithm_of PKIX_RSA_PKCS1V15_3072_SHA256 = Some (RSA_PKCS1V15 3072 SHA_256)"
| "algorithm_of PKIX_RSA_PKCS1V15_4096_SHA256 = Some (RSA_PKCS1V15 4096 SHA_256)"
| "algorithm_of PKIX_ED25519 = Some ED25519"
| "algorithm_of (PublicKeyDetails_Other n) = None"

type_synonym err = string

text \<open>
  \<^verbatim>\<open>buildDefaultClientSigningAlgorithms\<close>: the loop appends the flag string of each
  algorithm; a formatting error is fatal. \<open>fmt\<close> is
  \<^verbatim>\<open>signature.FormatSignatureAlgorithmFlag\<close> of sigstore/sigstore.
\<close>

fun buildLoop ::
  "(PublicKeyDetails \<Rightarrow> err + string) \<Rightarrow> PublicKeyDetails list \<Rightarrow> string list \<Rightarrow> err + string list"
where
  "buildLoop fmt [] algorithmStrings = Inr algorithmStrings"
| "buildLoop fmt (algorithm # rest) algorithmStrings =
     (case fmt algorithm of
        Inl e \<Rightarrow> Inl e
      | Inr algorithmString \<Rightarrow> buildLoop fmt rest (algorithmStrings @ [algorithmString]))"

definition buildDefaultClientSigningAlgorithms ::
  "(PublicKeyDetails \<Rightarrow> err + string) \<Rightarrow> PublicKeyDetails list \<Rightarrow> err + string list"
where
  "buildDefaultClientSigningAlgorithms fmt allowedAlgorithms = buildLoop fmt allowedAlgorithms []"

text \<open>The slice literal that \<^verbatim>\<open>newServeCmd\<close> passes to it.\<close>

definition defaultAllowedAlgorithms :: "PublicKeyDetails list" where
  "defaultAllowedAlgorithms =
     [PKIX_ECDSA_P256_SHA_256,
      PKIX_ECDSA_P384_SHA_384,
      PKIX_ECDSA_P521_SHA_512,
      PKIX_RSA_PKCS1V15_2048_SHA256,
      PKIX_RSA_PKCS1V15_3072_SHA256,
      PKIX_RSA_PKCS1V15_4096_SHA256,
      PKIX_ED25519]"

subsection \<open>Flags of the serve command\<close>

text \<open>A pflag value, by the type the flag is declared with.\<close>

datatype flag_value =
    FString string
  | FBool bool
  | FDuration duration
  | FStringSlice "string list"

text \<open>
  \<^verbatim>\<open>newServeCmd\<close>: the flags in the order of their declaration, each with its default.
  \<open>legacySocket\<close> is the constant \<^verbatim>\<open>LegacyUnixDomainSocket\<close>, declared in another file
  of the package. The default of \<^verbatim>\<open>client-signing-algorithms\<close> is computed while the
  flags are declared, and a formatting error there is fatal. The flag \<^verbatim>\<open>config\<close> is
  bound to the variable \<^verbatim>\<open>serveCmdConfigFilePath\<close>.
\<close>

definition serveFlags :: "string \<Rightarrow> string list \<Rightarrow> (string \<times> flag_value) list" where
  "serveFlags legacySocket algorithms =
     [(''config'', FString []),
      (''log_type'', FString ''dev''),
      (''ca'', FString []),
      (''aws-hsm-root-ca-path'', FString []),
      (''gcp_private_ca_parent'', FString []),
      (''hsm-caroot-id'', FString []),
      (''ct-log-url'', FString ''http://localhost:6962/test''),
      (''ct-log-public-key-path'', FString []),
      (''config-path'', FString defaultConfigPath),
      (''pkcs11-config-path'', FString ''config/crypto11.conf''),
      (''fileca-cert'', FString []),
      (''fileca-key'', FString []),
      (''fileca-key-passwd'', FString []),
      (''fileca-watch'', FBool True),
      (''kms-resource'', FString []),
      (''kms-cert-chain-path'', FString []),
      (''tink-kms-resource'', FString []),
      (''tink-cert-chain-path'', FString []),
      (''tink-keyset-path'', FString []),
      (''host'', FString ''0.0.0.0''),
      (''port'', FString ''8080''),
      (''grpc-host'', FString ''0.0.0.0''),
      (''grpc-port'', FString ''8081''),
      (''metrics-port'', FString ''2112''),
      (''legacy-unix-domain-socket'', FString legacySocket),
      (''read-header-timeout'', FDuration (10 * Second)),
      (''grpc-tls-certificate'', FString []),
      (''grpc-tls-key'', FString []),
      (''idle-connection-timeout'', FDuration (30 * Second)),
      (''ct-log.tls-ca-cert'', FString []),
      (''client-signing-algorithms'', FStringSlice algorithms)]"

definition newServeCmd ::
  "(PublicKeyDetails \<Rightarrow> err + string) \<Rightarrow> string \<Rightarrow> err + (string \<times> flag_value) list"
where
  "newServeCmd fmt legacySocket =
     (case buildDefaultClientSigningAlgorithms fmt defaultAllowedAlgorithms of
        Inl e \<Rightarrow> Inl e
      | Inr algorithms \<Rightarrow> Inr (serveFlags legacySocket algorithms))"

text \<open>
  The normalisation function of the flag set and the two viper aliases:
  \<^verbatim>\<open>http-port\<close> is \<^verbatim>\<open>port\<close> and \<^verbatim>\<open>http-host\<close> is \<^verbatim>\<open>host\<close>.
\<close>

definition normalizeName :: "string \<Rightarrow> string" where
  "normalizeName name =
     (if name = ''http-port'' then ''port''
      else if name = ''http-host'' then ''host''
      else name)"

subsection \<open>The settings store\<close>

text \<open>
  viper as serve.go uses it, after \<^verbatim>\<open>BindPFlags\<close>, \<^verbatim>\<open>SetEnvPrefix\<close> and
  \<^verbatim>\<open>AutomaticEnv\<close>. A key is looked up, in this order, among the flags changed on the
  command line, the environment variables with the prefix \<^verbatim>\<open>FULCIO_SERVE\<close>, and the
  config file read by \<^verbatim>\<open>checkServeCmdConfigFile\<close>; the declared default of a flag
  comes last and only for the getters: \<^verbatim>\<open>IsSet\<close> does not count it. An environment
  variable with an empty value counts as not set. The conversions
  of a value to the type a getter returns are viper's and are fields of the record; a value
  that already has the type is returned as it is.
\<close>

record viper =
  changedFlags :: "string \<rightharpoonup> flag_value"
  environment :: "string \<rightharpoonup> string"
  configFile :: "string \<rightharpoonup> flag_value"
  flagDefaults :: "(string \<times> flag_value) list"
  castToString :: "flag_value \<Rightarrow> string"
  castToBool :: "flag_value \<Rightarrow> bool"
  castToInt :: "flag_value \<Rightarrow> int"
  castToDuration :: "flag_value \<Rightarrow> duration"
  castToStringSlice :: "flag_value \<Rightarrow> string list"

definition findSet :: "viper \<Rightarrow> string \<Rightarrow> flag_value option" where
  "findSet v key =
     (let k = normalizeName key in
      case changedFlags v k of
        Some x \<Rightarrow> Some x
      | None \<Rightarrow>
          (case environment v k of
             Some s \<Rightarrow> (if s \<noteq> [] then Some (FString s) else configFile v k)
           | None \<Rightarrow> configFile v k))"

definition find_value :: "viper \<Rightarrow> string \<Rightarrow> flag_value option" where
  "find_value v key =
     (case findSet v key of
        Some x \<Rightarrow> Some x
      | None \<Rightarrow> map_of (flagDefaults v) (normalizeName key))"

definition IsSet :: "viper \<Rightarrow> string \<Rightarrow> bool" where
  "IsSet v key = (findSet v key \<noteq> None)"

definition GetString :: "viper \<Rightarrow> string \<Rightarrow> string" where
  "GetString v key =
     (case find_value v key of
        None \<Rightarrow> []
      | Some (FString s) \<Rightarrow> s
      | Some x \<Rightarrow> castToString v x)"

definition GetBool :: "viper \<Rightarrow> string \<Rightarrow> bool" where
  "GetBool v key =
     (case find_value v key of
        None \<Rightarrow> False
      | Some (FBool b) \<Rightarrow> b
      | Some x \<Rightarrow> castToBool v x)"

definition GetInt :: "viper \<Rightarrow> string \<Rightarrow> int" where
  "GetInt v key = (case find_value v key of None \<Rightarrow> 0 | Some x \<Rightarrow> castToInt v x)"

definition GetDuration :: "viper \<Rightarrow> string \<Rightarrow> duration" where
  "GetDuration v key =
     (case find_value v key of
        None \<Rightarrow> 0
      | Some (FDuration d) \<Rightarrow> d
      | Some x \<Rightarrow> castToDuration v x)"

definition GetStringSlice :: "viper \<Rightarrow> string \<Rightarrow> string list" where
  "GetStringSlice v key =
     (case find_value v key of
        None \<Rightarrow> []
      | Some (FStringSlice xs) \<Rightarrow> xs
      | Some x \<Rightarrow> castToStringSlice v x)"

subsection \<open>What the serve command builds\<close>

type_synonym bytes = string

datatype stat_error = ErrNotExist | ErrOtherStat err

text \<open>
  A Go \<^verbatim>\<open>error\<close> as far as serve.go tells errors apart: the sentinel
  \<^verbatim>\<open>http.ErrServerClosed\<close>, an error wrapped by \<^verbatim>\<open>fmt.Errorf\<close> with \<^verbatim>\<open>%w\<close>, any other.
\<close>

datatype go_error = ErrServerClosed | Wrapped string go_error | OtherError err

fun errorsIs :: "go_error \<Rightarrow> go_error \<Rightarrow> bool" where
  "errorsIs (Wrapped m e) target = (Wrapped m e = target \<or> errorsIs e target)"
| "errorsIs e target = (e = target)"

datatype fulcio_config = FulcioConfig bytes

type_synonym x509_certificate = bytes

record pkcs11_Params =
  ConfigPath :: string
  RootID :: string
  CAPath :: "string option"

text \<open>A CA backend with the arguments its constructor is called with.\<close>

datatype certificate_authority =
    GoogleCA string
  | PKCS11CA pkcs11_Params
  | FileCA string string string bool
  | EphemeralCA
  | KMSCA string "x509_certificate list"
  | TinkCA string string string

datatype tls_version = VersionTLS10 | VersionTLS11 | VersionTLS12 | VersionTLS13

record tls_Config =
  RootCAs :: bytes
  MinVersion :: tls_version

text \<open>\<^verbatim>\<open>http.Client\<close>: a zero \<^verbatim>\<open>Transport\<close> is \<open>None\<close>.\<close>

record http_Client =
  Timeout :: duration
  Transport :: "tls_Config option"

text \<open>\<^verbatim>\<open>jsonclient.Options\<close>; the logger adaptor has no content. The empty string is no key.\<close>

record jsonclient_Options =
  PublicKey :: string

text \<open>
  \<^verbatim>\<open>ctclient.LogClient\<close>: what \<^verbatim>\<open>ctclient.New\<close> was given. A nil pointer is \<open>None\<close>
  where the client is optional.
\<close>

record LogClient =
  logURI :: string
  httpClient :: http_Client
  clientOptions :: jsonclient_Options

datatype warning =
    GcpPrivateCaVersionDeprecated
  | ConfigPathFallBackToJson string

text \<open>The calls of \<^verbatim>\<open>log.Logger.Fatal\<close> and \<^verbatim>\<open>Fatalf\<close> in serve.go, one constructor each
  (the three checks of the file CA's flags share one, as do the checks of the other backends).\<close>

datatype fatal =
    FormatAlgorithmFatal err
  | ConfigFileFatal err
  | BindPFlagsFatal err
  | CaNotSet
  | MustBeSet string string
  | NotAValidSelection string
  | ParseAlgorithmFatal err
  | AlgorithmRegistryFatal err
  | ConfigLoadFatal string err
  | KmsChainReadFatal string err
  | KmsChainPEMFatal string err
  | InvalidConfiguredCA
  | NewCAFatal err
  | ReadFileFatal err
  | AppendTLSCACertFatal
  | NewCTClientFatal err
  | DuplexServerFatal "go_error option"
  | CreateServerFatal go_error
  | PrometheusFatal go_error

subsection \<open>The world outside serve.go\<close>

text \<open>
  The results of every call that leaves serve.go. A field that is a function answers the
  call for each argument; an \<open>err option\<close> is Go's \<^verbatim>\<open>error\<close> (\<open>None\<close> is nil), and
  \<open>err + 'a\<close> is a result with an error. \<open>createGRPCServer\<close>,
  \<open>createLegacyGRPCServer\<close>, \<open>panicRecoveryHandler\<close> and
  \<open>LegacyUnixDomainSocket\<close> belong to other files of the package.
\<close>

datatype handler_name = CAHandler | LegacyCAHandler | HealthzHandler

datatype status_code = Unknown | Internal | ResourceExhausted | OtherCode nat

record world =
  serveCmdConfigFilePath :: string
  commandLine :: "string \<rightharpoonup> flag_value"
  environ :: "string \<rightharpoonup> string"
  toString :: "flag_value \<Rightarrow> string"
  toBool :: "flag_value \<Rightarrow> bool"
  toInt :: "flag_value \<Rightarrow> int"
  toDuration :: "flag_value \<Rightarrow> duration"
  toStringSlice :: "flag_value \<Rightarrow> string list"
  LegacyUnixDomainSocket :: string
  SupportedExts :: "string list"
  Stat :: "string \<Rightarrow> stat_error option"
  Abs :: "string \<Rightarrow> err + string"
  Base :: "string \<Rightarrow> string"
  Dir :: "string \<Rightarrow> string"
  Clean :: "string \<Rightarrow> string"
  ReadFile :: "string \<Rightarrow> err + bytes"
  ReadInConfig :: "string \<Rightarrow> string \<Rightarrow> string \<Rightarrow> err + (string \<rightharpoonup> flag_value)"
  BindPFlags :: "err option"
  FormatSignatureAlgorithmFlag :: "PublicKeyDetails \<Rightarrow> err + string"
  ParseSignatureAlgorithmFlag :: "string \<Rightarrow> err + PublicKeyDetails"
  NewAlgorithmRegistryConfig :: "PublicKeyDetails list \<Rightarrow> err option"
  configLoad :: "string \<Rightarrow> err + fulcio_config"
  LoadCertificatesFromPEM :: "bytes \<Rightarrow> err + x509_certificate list"
  newCA :: "certificate_authority \<Rightarrow> err option"
  AppendCertsFromPEM :: "bytes \<Rightarrow> bool"
  ctclientNew :: "string \<Rightarrow> http_Client \<Rightarrow> jsonclient_Options \<Rightarrow> err option"
  RegisterHandler :: "handler_name \<Rightarrow> go_error option"
  netListen :: "string \<Rightarrow> int \<Rightarrow> go_error option"
  duplexServe :: "go_error option"
  createGRPCServer :: "go_error option"
  createLegacyGRPCServer :: "string \<Rightarrow> go_error option"
  promListenAndServe :: "go_error option"
  panicRecoveryHandler :: "string \<Rightarrow> status_code"

text \<open>
  The store when \<^verbatim>\<open>runServeCmd\<close> is entered: cobra has parsed the command line into
  the flags that \<^verbatim>\<open>newServeCmd\<close> declared, and no config file has been read.
\<close>

definition initialViper :: "world \<Rightarrow> (string \<times> flag_value) list \<Rightarrow> viper" where
  "initialViper w flags =
     \<lparr>changedFlags = commandLine w,
      environment = environ w,
      configFile = Map.empty,
      flagDefaults = flags,
      castToString = toString w,
      castToBool = toBool w,
      castToInt = toInt w,
      castToDuration = toDuration w,
      castToStringSlice = toStringSlice w\<rparr>"

subsection \<open>\<^verbatim>\<open>checkServeCmdConfigFile\<close>\<close>

definition checkServeCmdConfigFile :: "world \<Rightarrow> viper \<Rightarrow> err + viper" where
  "checkServeCmdConfigFile w v =
     (if serveCmdConfigFilePath w \<noteq> [] then
        (case Stat w (serveCmdConfigFilePath w) of
           Some e \<Rightarrow> Inl ''unable to stat config file provided''
         | None \<Rightarrow>
             (case Abs w (serveCmdConfigFilePath w) of
                Inl e \<Rightarrow> Inl ''unable to determine absolute path of config file provided''
              | Inr abspath \<Rightarrow>
                  (let extWithDot = Ext abspath;
                       ext = TrimPrefix extWithDot ''.''
                   in if \<not> List.member (SupportedExts w) ext
                      then Inl ''config file must have one of the following extensions''
                      else
                        (case ReadInConfig w (TrimSuffix (Base w abspath) extWithDot) ext
                                (Dir w (serveCmdConfigFilePath w)) of
                           Inl e \<Rightarrow> Inl ''unable to parse config file provided''
                         | Inr values \<Rightarrow> Inr (v\<lparr>configFile := values\<rparr>)))))
      else Inr v)"

subsection \<open>\<^verbatim>\<open>runServeCmd\<close>, from its entry to the issuer pool\<close>

text \<open>
  The first switch on \<^verbatim>\<open>viper.GetString("ca")\<close> (lines 174 to 222): the fatal error
  it ends with, if any, and the warning it logs.
\<close>

definition checkCA :: "viper \<Rightarrow> warning list \<times> fatal option" where
  "checkCA v =
     (let ca = GetString v ''ca'' in
      if ca = [] then ([], Some CaNotSet)
      else if ca = ''pkcs11ca'' then
        (if \<not> IsSet v ''hsm-caroot-id'' then ([], Some (MustBeSet ''hsm-caroot-id'' ca))
         else ([], None))
      else if ca = ''googleca'' then
        (if \<not> IsSet v ''gcp_private_ca_parent''
         then ([], Some (MustBeSet ''gcp_private_ca_parent'' ca))
         else if IsSet v ''gcp_private_ca_version'' then ([GcpPrivateCaVersionDeprecated], None)
         else ([], None))
      else if ca = ''fileca'' then
        (if \<not> IsSet v ''fileca-cert'' then ([], Some (MustBeSet ''fileca-cert'' ca))
         else if \<not> IsSet v ''fileca-key'' then ([], Some (MustBeSet ''fileca-key'' ca))
         else if \<not> IsSet v ''fileca-key-passwd''
         then ([], Some (MustBeSet ''fileca-key-passwd'' ca))
         else ([], None))
      else if ca = ''kmsca'' then
        (if \<not> IsSet v ''kms-resource'' then ([], Some (MustBeSet ''kms-resource'' ca))
         else if \<not> IsSet v ''kms-cert-chain-path''
         then ([], Some (MustBeSet ''kms-cert-chain-path'' ca))
         else ([], None))
      else if ca = ''tinkca'' then
        (if \<not> IsSet v ''tink-kms-resource'' then ([], Some (MustBeSet ''tink-kms-resource'' ca))
         else if \<not> IsSet v ''tink-cert-chain-path''
         then ([], Some (MustBeSet ''tink-cert-chain-path'' ca))
         else if \<not> IsSet v ''tink-keyset-path''
         then ([], Some (MustBeSet ''tink-keyset-path'' ca))
         else ([], None))
      else if ca = ''ephemeralca'' then ([], None)
      else ([], Some (NotAValidSelection ca)))"

text \<open>The loop over \<^verbatim>\<open>client-signing-algorithms\<close> and the registry (lines 227 to 239).\<close>

fun parseAlgorithms ::
  "(string \<Rightarrow> err + PublicKeyDetails) \<Rightarrow> string list \<Rightarrow> PublicKeyDetails list
     \<Rightarrow> err + PublicKeyDetails list"
where
  "parseAlgorithms parse [] algorithmConfig = Inr algorithmConfig"
| "parseAlgorithms parse (s # rest) algorithmConfig =
     (case parse s of
        Inl e \<Rightarrow> Inl e
      | Inr algorithmValue \<Rightarrow> parseAlgorithms parse rest (algorithmConfig @ [algorithmValue]))"

definition clientSigningAlgorithms :: "world \<Rightarrow> viper \<Rightarrow> fatal + PublicKeyDetails list" where
  "clientSigningAlgorithms w v =
     (case parseAlgorithms (ParseSignatureAlgorithmFlag w)
             (GetStringSlice v ''client-signing-algorithms'') [] of
        Inl e \<Rightarrow> Inl (ParseAlgorithmFatal e)
      | Inr algorithmConfig \<Rightarrow>
          (case NewAlgorithmRegistryConfig w algorithmConfig of
             Some e \<Rightarrow> Inl (AlgorithmRegistryFatal e)
           | None \<Rightarrow> Inr algorithmConfig))"

text \<open>
  The path given to \<^verbatim>\<open>config.Load\<close> (lines 244 to 250), with the warning logged when
  the path is changed.
\<close>

definition configPath :: "world \<Rightarrow> viper \<Rightarrow> warning list \<times> string" where
  "configPath w v =
     (let cp = GetString v ''config-path'' in
      if cp = defaultConfigPath then
        (case Stat w cp of
           Some ErrNotExist \<Rightarrow> ([ConfigPathFallBackToJson cp], TrimSuffix cp ''.yaml'' @ ''.json'')
         | _ \<Rightarrow> ([], cp))
      else ([], cp))"

text \<open>
  The second switch on \<^verbatim>\<open>viper.GetString("ca")\<close> (lines 257 to 299). Each constructor
  returns the CA and an error, and a non-nil error is fatal after the switch.
\<close>

definition construct :: "world \<Rightarrow> certificate_authority \<Rightarrow> fatal + certificate_authority" where
  "construct w ca = (case newCA w ca of Some e \<Rightarrow> Inl (NewCAFatal e) | None \<Rightarrow> Inr ca)"

definition newBaseCA :: "world \<Rightarrow> viper \<Rightarrow> fatal + certificate_authority" where
  "newBaseCA w v =
     (let ca = GetString v ''ca'' in
      if ca = ''googleca'' then construct w (GoogleCA (GetString v ''gcp_private_ca_parent''))
      else if ca = ''pkcs11ca'' then
        construct w (PKCS11CA
          \<lparr>ConfigPath = GetString v ''pkcs11-config-path'',
           RootID = GetString v ''hsm-caroot-id'',
           CAPath = (if IsSet v ''aws-hsm-root-ca-path''
                     then Some (GetString v ''aws-hsm-root-ca-path'') else None)\<rparr>)
      else if ca = ''fileca'' then
        construct w (FileCA (GetString v ''fileca-cert'') (GetString v ''fileca-key'')
          (GetString v ''fileca-key-passwd'') (GetBool v ''fileca-watch''))
      else if ca = ''ephemeralca'' then construct w EphemeralCA
      else if ca = ''kmsca'' then
        (case ReadFile w (Clean w (GetString v ''kms-cert-chain-path'')) of
           Inl e \<Rightarrow> Inl (KmsChainReadFatal (GetString v ''kms-cert-chain-path'') e)
         | Inr data \<Rightarrow>
             (case LoadCertificatesFromPEM w data of
                Inl e \<Rightarrow> Inl (KmsChainPEMFatal (GetString v ''kms-cert-chain-path'') e)
              | Inr certs \<Rightarrow> construct w (KMSCA (GetString v ''kms-resource'') certs)))
      else if ca = ''tinkca'' then
        construct w (TinkCA (GetString v ''tink-kms-resource'') (GetString v ''tink-keyset-path'')
          (GetString v ''tink-cert-chain-path''))
      else Inl InvalidConfiguredCA)"

text \<open>The CT log client (lines 302 to 345), in three steps: options, HTTP client, client.\<close>

definition ctOptions :: "world \<Rightarrow> viper \<Rightarrow> fatal + jsonclient_Options" where
  "ctOptions w v =
     (let pubKeyPath = GetString v ''ct-log-public-key-path'' in
      if pubKeyPath \<noteq> [] then
        (case ReadFile w (Clean w pubKeyPath) of
           Inl e \<Rightarrow> Inl (ReadFileFatal e)
         | Inr pemPubKey \<Rightarrow> Inr \<lparr>PublicKey = pemPubKey\<rparr>)
      else Inr \<lparr>PublicKey = []\<rparr>)"

definition ctHTTPClient :: "world \<Rightarrow> viper \<Rightarrow> fatal + http_Client" where
  "ctHTTPClient w v =
     (let tlsCaCertPath = GetString v ''ct-log.tls-ca-cert'' in
      if tlsCaCertPath \<noteq> [] then
        (case ReadFile w (Clean w tlsCaCertPath) of
           Inl e \<Rightarrow> Inl (ReadFileFatal e)
         | Inr tlsCaCert \<Rightarrow>
             (if \<not> AppendCertsFromPEM w tlsCaCert then Inl AppendTLSCACertFatal
              else Inr \<lparr>Timeout = 30 * Second,
                        Transport = Some \<lparr>RootCAs = tlsCaCert, MinVersion = VersionTLS12\<rparr>\<rparr>))
      else Inr \<lparr>Timeout = 30 * Second, Transport = None\<rparr>)"

definition newCTClient :: "world \<Rightarrow> viper \<Rightarrow> fatal + LogClient option" where
  "newCTClient w v =
     (let logURL = GetString v ''ct-log-url'' in
      if logURL \<noteq> [] then
        (case ctOptions w v of
           Inl f \<Rightarrow> Inl f
         | Inr opts \<Rightarrow>
             (case ctHTTPClient w v of
                Inl f \<Rightarrow> Inl f
              | Inr hc \<Rightarrow>
                  (case ctclientNew w logURL hc opts of
                     Some e \<Rightarrow> Inl (NewCTClientFatal e)
                   | None \<Rightarrow> Inr (Some \<lparr>logURI = logURL, httpClient = hc, clientOptions = opts\<rparr>))))
      else Inr None)"

text \<open>What \<^verbatim>\<open>runServeCmd\<close> holds when it starts its servers (line 346).\<close>

record server_setup =
  settings :: viper
  warnings :: "warning list"
  algorithmRegistry :: "PublicKeyDetails list"
  loadedFrom :: string
  cfg :: fulcio_config
  baseca :: certificate_authority
  ctClient :: "LogClient option"

definition startup :: "world \<Rightarrow> viper \<Rightarrow> fatal + server_setup" where
  "startup w v0 =
     (case checkServeCmdConfigFile w v0 of
        Inl e \<Rightarrow> Inl (ConfigFileFatal e)
      | Inr v \<Rightarrow>
     (case BindPFlags w of
        Some e \<Rightarrow> Inl (BindPFlagsFatal e)
      | None \<Rightarrow>
     (case checkCA v of
        (warn1, Some f) \<Rightarrow> Inl f
      | (warn1, None) \<Rightarrow>
     (case clientSigningAlgorithms w v of
        Inl f \<Rightarrow> Inl f
      | Inr registry \<Rightarrow>
     (case configPath w v of
        (warn2, cp) \<Rightarrow>
     (case configLoad w cp of
        Inl e \<Rightarrow> Inl (ConfigLoadFatal cp e)
      | Inr c \<Rightarrow>
     (case newBaseCA w v of
        Inl f \<Rightarrow> Inl f
      | Inr ca \<Rightarrow>
     (case newCTClient w v of
        Inl f \<Rightarrow> Inl f
      | Inr ct \<Rightarrow>
          Inr \<lparr>settings = v,
               warnings = warn1 @ warn2,
               algorithmRegistry = registry,
               loadedFrom = cp,
               cfg = c,
               baseca = ca,
               ctClient = ct\<rparr>))))))))"

subsection \<open>\<^verbatim>\<open>StartDuplexServer\<close>\<close>

text \<open>The five interceptors given to \<^verbatim>\<open>grpcmw.ChainUnaryServer\<close>, with their arguments.\<close>

datatype unary_interceptor =
    Recovery_UnaryServerInterceptor
  | UnaryRequestID bool nat
  | Zap_UnaryServerInterceptor
  | PassFulcioConfigThruContext fulcio_config
  | Prometheus_UnaryServerInterceptor

text \<open>The options given to \<^verbatim>\<open>duplex.New\<close> (lines 458 to 474).\<close>

record duplex_options =
  Port :: int
  InsecureTransportCredentials :: bool
  MaxConnectionIdle :: duration
  WithMetadata_extractOIDCTokenFromAuthHeader :: bool
  UnaryInterceptor :: "unary_interceptor list"
  MaxRecvMsgSize :: int
  WithForwardResponseOption_setResponseCodeModifier :: bool

definition duplexNew :: "viper \<Rightarrow> fulcio_config \<Rightarrow> int \<Rightarrow> duplex_options" where
  "duplexNew v c port =
     \<lparr>Port = port,
      InsecureTransportCredentials = True,
      MaxConnectionIdle = GetDuration v ''idle-connection-timeout'',
      WithMetadata_extractOIDCTokenFromAuthHeader = True,
      UnaryInterceptor =
        [Recovery_UnaryServerInterceptor,
         UnaryRequestID True 128,
         Zap_UnaryServerInterceptor,
         PassFulcioConfigThruContext c,
         Prometheus_UnaryServerInterceptor],
      MaxRecvMsgSize = sint maxMsgSize,
      WithForwardResponseOption_setResponseCodeModifier = True\<rparr>"

datatype listener =
    DuplexListener
  | MetricsListener
  | GRPCListener
  | LegacyUnixListener
  | HTTPListener
  | PrometheusListener

text \<open>
  \<^verbatim>\<open>StartDuplexServer\<close> returns the error of the first step that fails, wrapped, or nil
  when \<^verbatim>\<open>d.Serve\<close> returns nil. The first component lists what was set serving before
  it returned.
\<close>

definition StartDuplexServer ::
  "world \<Rightarrow> viper \<Rightarrow> fulcio_config \<Rightarrow> string \<Rightarrow> int \<Rightarrow> int \<Rightarrow> listener list \<times> go_error option"
where
  "StartDuplexServer w v c host port metricsPort =
     (case RegisterHandler w CAHandler of
        Some e \<Rightarrow> ([], Some (Wrapped ''registering grpc ca handler'' e))
      | None \<Rightarrow>
     (case RegisterHandler w LegacyCAHandler of
        Some e \<Rightarrow> ([], Some (Wrapped ''registering legacy grpc ca handler'' e))
      | None \<Rightarrow>
     (case RegisterHandler w HealthzHandler of
        Some e \<Rightarrow> ([], Some (Wrapped ''registering healthz endpoint'' e))
      | None \<Rightarrow>
     (case netListen w host port of
        Some e \<Rightarrow> ([MetricsListener], Some (Wrapped ''creating listener'' e))
      | None \<Rightarrow>
     (case duplexServe w of
        Some e \<Rightarrow> ([MetricsListener, DuplexListener], Some (Wrapped ''duplex server'' e))
      | None \<Rightarrow> ([MetricsListener, DuplexListener], None))))))"

subsection \<open>\<^verbatim>\<open>runServeCmd\<close>, the servers\<close>

text \<open>
  \<^verbatim>\<open>log.Logger.Fatal\<close> logs and ends the process with \<^verbatim>\<open>os.Exit(1)\<close>; returning
  from \<^verbatim>\<open>runServeCmd\<close> ends it with status 0.
\<close>

record run_result =
  exitCode :: nat
  fatalError :: "fatal option"
  started :: "listener list"

definition Fatal :: "fatal \<Rightarrow> listener list \<Rightarrow> run_result" where
  "Fatal f ls = \<lparr>exitCode = 1, fatalError = Some f, started = ls\<rparr>"

definition Return :: "listener list \<Rightarrow> run_result" where
  "Return ls = \<lparr>exitCode = 0, fatalError = None, started = ls\<rparr>"

text \<open>Lines 348 to 412.\<close>

definition serve :: "world \<Rightarrow> server_setup \<Rightarrow> run_result" where
  "serve w s =
     (let v = settings s;
          portsMatch = (GetString v ''port'' = GetString v ''grpc-port'');
          hostsMatch = (GetString v ''host'' = GetString v ''grpc-host'')
      in if portsMatch \<and> hostsMatch then
           (case StartDuplexServer w v (cfg s) (GetString v ''host'') (GetInt v ''port'')
                   (GetInt v ''metrics-port'') of
              (ls, e) \<Rightarrow>
                if e \<noteq> Some ErrServerClosed then Fatal (DuplexServerFatal e) ls else Return ls)
         else
           (case createGRPCServer w of
              Some e \<Rightarrow> Fatal (CreateServerFatal e) []
            | None \<Rightarrow>
                (case createLegacyGRPCServer w (GetString v ''legacy-unix-domain-socket'') of
                   Some e \<Rightarrow> Fatal (CreateServerFatal e) [GRPCListener]
                 | None \<Rightarrow>
                     (case promListenAndServe w of
                        Some e \<Rightarrow>
                          if \<not> errorsIs e ErrServerClosed
                          then Fatal (PrometheusFatal e)
                                 [GRPCListener, LegacyUnixListener, HTTPListener, PrometheusListener]
                          else Return
                                 [GRPCListener, LegacyUnixListener, HTTPListener, PrometheusListener]
                      | None \<Rightarrow>
                          Return
                            [GRPCListener, LegacyUnixListener, HTTPListener, PrometheusListener]))))"

definition runServeCmd :: "world \<Rightarrow> viper \<Rightarrow> run_result" where
  "runServeCmd w v0 =
     (case startup w v0 of
        Inl f \<Rightarrow> Fatal f []
      | Inr s \<Rightarrow> serve w s)"

text \<open>The command from the declaration of its flags to its end.\<close>

definition serveCommand :: "world \<Rightarrow> run_result" where
  "serveCommand w =
     (case newServeCmd (FormatSignatureAlgorithmFlag w) (LegacyUnixDomainSocket w) of
        Inl e \<Rightarrow> Fatal (FormatAlgorithmFatal e) []
      | Inr flags \<Rightarrow> runServeCmd w (initialViper w flags))"

subsection \<open>A unary call on the duplex server\<close>

text \<open>
  The behaviour of the gRPC libraries that the options of \<^verbatim>\<open>duplex.New\<close> select, as
  their documentation gives it. A handler or an interceptor returns a response or an
  error, or panics.
\<close>

datatype rpc_result = Response bytes | RpcError status_code | Panic string

type_synonym unary_handler = "bytes \<Rightarrow> rpc_result"

type_synonym unary_server_interceptor = "bytes \<Rightarrow> unary_handler \<Rightarrow> rpc_result"

text \<open>
  \<^verbatim>\<open>grpcmw.ChainUnaryServer\<close>: the first interceptor is the outermost, and the handler
  it is given runs the rest of the chain.
\<close>

fun ChainUnaryServer :: "unary_server_interceptor list \<Rightarrow> unary_server_interceptor" where
  "ChainUnaryServer [] req handler = handler req"
| "ChainUnaryServer (i # rest) req handler = i req (\<lambda>r. ChainUnaryServer rest r handler)"

text \<open>
  \<^verbatim>\<open>grpc_recovery.UnaryServerInterceptor\<close> with a recovery handler: a panic of the
  handler it wraps is recovered and the recovery handler's error is returned.
\<close>

definition recoveryInterceptor :: "(string \<Rightarrow> status_code) \<Rightarrow> unary_server_interceptor" where
  "recoveryInterceptor recoveryHandler req handler =
     (case handler req of
        Panic p \<Rightarrow> RpcError (recoveryHandler p)
      | r \<Rightarrow> r)"

text \<open>
  The function each interceptor of the chain stands for: the recovery interceptor with
  \<^verbatim>\<open>panicRecoveryHandler\<close>, and for the four others whatever \<open>lib\<close> says.
\<close>

definition interceptorOf ::
  "world \<Rightarrow> (unary_interceptor \<Rightarrow> unary_server_interceptor) \<Rightarrow> unary_interceptor
     \<Rightarrow> unary_server_interceptor"
where
  "interceptorOf w lib i =
     (case i of
        Recovery_UnaryServerInterceptor \<Rightarrow> recoveryInterceptor (panicRecoveryHandler w)
      | _ \<Rightarrow> lib i)"

text \<open>
  One unary call: the transport refuses a message longer than \<^verbatim>\<open>MaxRecvMsgSize\<close> with
  \<^verbatim>\<open>ResourceExhausted\<close>, and any other message goes through the interceptor chain to the
  handler. A panic that leaves the chain ends the process.
\<close>

definition serveUnary ::
  "world \<Rightarrow> (unary_interceptor \<Rightarrow> unary_server_interceptor) \<Rightarrow> duplex_options
     \<Rightarrow> unary_handler \<Rightarrow> bytes \<Rightarrow> rpc_result"
where
  "serveUnary w lib d handler msg =
     (if int (length msg) > MaxRecvMsgSize d then RpcError ResourceExhausted
      else ChainUnaryServer (map (interceptorOf w lib) (UnaryInterceptor d)) msg handler)"

fun processEnds :: "rpc_result \<Rightarrow> bool" where
  "processEnds (Panic p) = True"
| "processEnds r = False"

subsection \<open>The issuance handler\<close>

text \<open>
  The issuance handler (package \<^verbatim>\<open>server\<close>), the construction of the certificate
  (package \<^verbatim>\<open>ca\<close>) and the submission to the CT log are not among the source files;
  serve.go only hands them the CT client and the CA. The definitions of this subsection
  follow sections 4.F, 4.G and 7 of the specification. Times are in seconds.
\<close>

text \<open>
  Modelled from the spec: the error kinds of section 7, which the handler of package
  \<^verbatim>\<open>server\<close>, absent from the source files, surfaces to clients.
\<close>

datatype issuance_error =
    invalid_argument
  | unsupported_algorithm
  | invalid_credentials
  | permission_denied
  | failed_precondition
  | unavailable
  | deadline_exceeded
  | internal

text \<open>
  Modelled from the spec: the extensions that the pipeline adds or removes (the CT poison
  and the SCT list of section 4.G, steps 6 and 7) and those rendered by the principal; the
  encoding of certificates is not among the source files.
\<close>

datatype extension =
    CTPoison
  | SCTList bytes
  | SigstoreExtension string string

text \<open>
  Modelled from the spec: the body of a certificate as far as section 4.G step 5 and the
  claims need it, its validity and its extensions; package \<^verbatim>\<open>ca\<close> is not among the
  source files.
\<close>

record tbsCertificate =
  NotBefore :: int
  NotAfter :: int
  Extensions :: "extension list"

text \<open>
  Modelled from the spec: the response of section 4.G step 8, the certificate and the SCT,
  which is omitted when CT is disabled; the protobuf types are not among the source files.
\<close>

record SigningCertificate =
  certificate :: tbsCertificate
  signed_certificate_timestamp :: "bytes option"

text \<open>
  Modelled from the spec: what steps 1 to 4 of section 4.G, absent from the source files,
  found for a request. The principal is given by the extensions it renders.
\<close>

record issuance_request =
  algorithmInRegistry :: bool
  proofOfPossessionValid :: bool
  tokenVerified :: bool
  principalExtensions :: "extension list option"

text \<open>
  Modelled from the spec: an answer of the CT log to one submission (section 4.F); the
  log is outside the source files.
\<close>

datatype log_reply = Status5xx | OtherFailure | SCT bytes

text \<open>
  Modelled from the spec: the submission of section 4.F with its one retry on a 5xx
  answer, absent from the source files. The argument lists the answers of the log to
  consecutive submissions; the result is the number of submissions made and the SCT, if
  one was returned.
\<close>

fun addPreChain :: "log_reply list \<Rightarrow> nat \<times> bytes option" where
  "addPreChain (SCT s # rest) = (1, Some s)"
| "addPreChain (Status5xx # SCT s # rest) = (2, Some s)"
| "addPreChain (Status5xx # rest) = (2, None)"
| "addPreChain replies = (1, None)"

text \<open>
  Modelled from the spec: the pipeline of section 4.G, whose handler (package
  \<^verbatim>\<open>server\<close>) is not among the source files. Without a CT client the log is not
  called, the body without poison is the final certificate, and the response has no SCT.
  The validity is \<open>[now, now + window]\<close> for the window of the CA. The first component
  is the precertificates submitted to the log.
\<close>

definition CreateSigningCertificate ::
  "LogClient option \<Rightarrow> int \<Rightarrow> int \<Rightarrow> log_reply list \<Rightarrow> issuance_request
     \<Rightarrow> tbsCertificate list \<times> (issuance_error + SigningCertificate)"
where
  "CreateSigningCertificate ct window now replies req =
     (if \<not> algorithmInRegistry req then ([], Inl unsupported_algorithm)
      else if \<not> proofOfPossessionValid req then ([], Inl failed_precondition)
      else if \<not> tokenVerified req then ([], Inl invalid_credentials)
      else
        (case principalExtensions req of
           None \<Rightarrow> ([], Inl invalid_credentials)
         | Some exts \<Rightarrow>
             (let tbs = \<lparr>NotBefore = now, NotAfter = now + window, Extensions = exts\<rparr>;
                  precert = tbs\<lparr>Extensions := CTPoison # exts\<rparr>
              in case ct of
                   None \<Rightarrow> ([], Inr \<lparr>certificate = tbs, signed_certificate_timestamp = None\<rparr>)
                 | Some client \<Rightarrow>
                     (case addPreChain replies of
                        (n, None) \<Rightarrow> (replicate n precert, Inl unavailable)
                      | (n, Some sct) \<Rightarrow>
                          (replicate n precert,
                           Inr \<lparr>certificate = tbs\<lparr>Extensions := exts @ [SCTList sct]\<rparr>,
                                signed_certificate_timestamp = Some sct\<rparr>)))))"

text \<open>A request that passes every check, for the examples.\<close>

definition exampleRequest :: issuance_request where
  "exampleRequest =
     \<lparr>algorithmInRegistry = True,
      proofOfPossessionValid = True,
      tokenVerified = True,
      principalExtensions =
        Some [SigstoreExtension ''1.3.6.1.4.1.57264.1.1'' ''https://accounts.example'']\<rparr>"

subsection \<open>A concrete world\<close>

text \<open>
  A world in which the command line is \<^verbatim>\<open>serve --ca ephemeralca\<close>, no environment
  variable is set, \<^verbatim>\<open>/etc/fulcio-config/config.json\<close> is the only config file and
  \<^verbatim>\<open>/etc/ctlog/pub.pem\<close> the only other file, and every library call succeeds. The
  theorems below are instantiated at it and at variations of it.
\<close>

fun exampleFormat :: "PublicKeyDetails \<Rightarrow> err + string" where
  "exampleFormat PKIX_ECDSA_P256_SHA_256 = Inr ''ecdsa-sha2-256-nistp256''"
| "exampleFormat PKIX_ECDSA_P384_SHA_384 = Inr ''ecdsa-sha2-384-nistp384''"
| "exampleFormat PKIX_ECDSA_P521_SHA_512 = Inr ''ecdsa-sha2-512-nistp521''"
| "exampleFormat PKIX_RSA_PKCS1V15_2048_SHA256 = Inr ''rsa-sign-pkcs1-2048-sha256''"
| "exampleFormat PKIX_RSA_PKCS1V15_3072_SHA256 = Inr ''rsa-sign-pkcs1-3072-sha256''"
| "exampleFormat PKIX_RSA_PKCS1V15_4096_SHA256 = Inr ''rsa-sign-pkcs1-4096-sha256''"
| "exampleFormat PKIX_ED25519 = Inr ''ed25519''"
| "exampleFormat (PublicKeyDetails_Other n) = Inl ''unknown algorithm''"

definition exampleParse :: "string \<Rightarrow> err + PublicKeyDetails" where
  "exampleParse s =
     (case List.find (\<lambda>a. exampleFormat a = Inr s) defaultAllowedAlgorithms of
        Some a \<Rightarrow> Inr a
      | None \<Rightarrow> Inl ''unknown flag'')"

definition exampleWorld :: world where
  "exampleWorld =
     \<lparr>serveCmdConfigFilePath = [],
      commandLine = [''ca'' \<mapsto> FString ''ephemeralca''],
      environ = Map.empty,
      toString = (\<lambda>x. []),
      toBool = (\<lambda>x. False),
      toInt = (\<lambda>x. 0),
      toDuration = (\<lambda>x. 0),
      toStringSlice = (\<lambda>x. []),
      LegacyUnixDomainSocket = ''@fulcio-legacy-grpc-socket'',
      SupportedExts = [''json'', ''yaml'', ''yml''],
      Stat = (\<lambda>p. if p = ''/etc/fulcio-config/config.json'' \<or> p = ''/etc/ctlog/pub.pem''
                  then None else Some ErrNotExist),
      Abs = (\<lambda>p. Inr p),
      Base = (\<lambda>p. p),
      Dir = (\<lambda>p. p),
      Clean = (\<lambda>p. p),
      ReadFile = (\<lambda>p. if p = ''/etc/ctlog/pub.pem'' then Inr ''PUBLIC KEY''
                      else Inl ''no such file''),
      ReadInConfig = (\<lambda>n t d. Inl ''no such file''),
      BindPFlags = None,
      FormatSignatureAlgorithmFlag = exampleFormat,
      ParseSignatureAlgorithmFlag = exampleParse,
      NewAlgorithmRegistryConfig = (\<lambda>as. None),
      configLoad = (\<lambda>p. if p = ''/etc/fulcio-config/config.json''
                        then Inr (FulcioConfig ''{}'') else Inl ''no such file''),
      LoadCertificatesFromPEM = (\<lambda>data. Inr [data]),
      newCA = (\<lambda>ca. None),
      AppendCertsFromPEM = (\<lambda>pem. True),
      ctclientNew = (\<lambda>url hc opts. None),
      RegisterHandler = (\<lambda>h. None),
      netListen = (\<lambda>host port. None),
      duplexServe = Some ErrServerClosed,
      createGRPCServer = None,
      createLegacyGRPCServer = (\<lambda>sock. None),
      promListenAndServe = Some ErrServerClosed,
      panicRecoveryHandler = (\<lambda>p. Unknown)\<rparr>"

text \<open>The same world with other flags on the command line, each given with its value.\<close>

definition exampleArgs :: "(string \<times> string) list \<Rightarrow> world" where
  "exampleArgs args = exampleWorld\<lparr>commandLine := map_of (map (\<lambda>(k, s). (k, FString s)) args)\<rparr>"

text \<open>
  The store of a world when \<^verbatim>\<open>runServeCmd\<close> is entered, where the declaration of the
  flags has succeeded.
\<close>

definition entryViper :: "world \<Rightarrow> viper" where
  "entryViper w =
     initialViper w
       (serveFlags (LegacyUnixDomainSocket w)
          (map (\<lambda>a. projr (FormatSignatureAlgorithmFlag w a)) defaultAllowedAlgorithms))"

definition exampleViper :: viper where
  "exampleViper = entryViper exampleWorld"

text \<open>An interceptor that only calls on, a handler that answers, and one that panics.\<close>

definition passOn :: "unary_interceptor \<Rightarrow> unary_server_interceptor" where
  "passOn i req handler = handler req"

definition echoHandler :: unary_handler where
  "echoHandler req = Response req"

definition panickingHandler :: unary_handler where
  "panickingHandler req = Panic ''nil pointer dereference''"

section \<open>Properties\<close>

subsection \<open>Auxiliary facts\<close>

lemma maxMsgSize_sint: "sint maxMsgSize = 4194304"
  by (simp add: maxMsgSize_def)

lemma buildLoop_Inr:
  "buildLoop fmt xs acc = Inr ys \<Longrightarrow> \<exists>strs. ys = acc @ strs \<and> map fmt xs = map Inr strs"
proof (induction xs arbitrary: acc)
  case Nil
  then show ?case by simp
next
  case (Cons a xs)
  from Cons.prems obtain s where s: "fmt a = Inr s" and rest: "buildLoop fmt xs (acc @ [s]) = Inr ys"
    by (auto split: sum.splits)
  from Cons.IH [OF rest] obtain strs where "ys = (acc @ [s]) @ strs" "map fmt xs = map Inr strs"
    by blast
  with s have "ys = acc @ (s # strs) \<and> map fmt (a # xs) = map Inr (s # strs)" by simp
  then show ?case by blast
qed

lemma startup_Inr:
  assumes "startup w v0 = Inr s"
  shows "checkServeCmdConfigFile w v0 = Inr (settings s)"
    and "BindPFlags w = None"
    and "snd (checkCA (settings s)) = None"
    and "clientSigningAlgorithms w (settings s) = Inr (algorithmRegistry s)"
    and "loadedFrom s = snd (configPath w (settings s))"
    and "configLoad w (loadedFrom s) = Inr (cfg s)"
    and "newBaseCA w (settings s) = Inr (baseca s)"
    and "newCTClient w (settings s) = Inr (ctClient s)"
    and "warnings s = fst (checkCA (settings s)) @ fst (configPath w (settings s))"
  using assms
  by (auto simp: startup_def split: sum.splits option.splits prod.splits)

lemma startup_Inl:
  "startup w v0 = Inl f \<Longrightarrow> runServeCmd w v0 = Fatal f []"
  by (simp add: runServeCmd_def)

lemma checkCA_None:
  assumes "snd (checkCA v) = None"
  shows "GetString v ''ca'' \<in> {''googleca'', ''pkcs11ca'', ''fileca'', ''ephemeralca'', ''kmsca'', ''tinkca''}"
  using assms by (auto simp: checkCA_def Let_def split: if_splits)


lemma checkCA_complete:
  assumes "snd (checkCA v) = None"
  shows "(GetString v ''ca'' = ''pkcs11ca'' \<longrightarrow> IsSet v ''hsm-caroot-id'') \<and>
     (GetString v ''ca'' = ''googleca'' \<longrightarrow> IsSet v ''gcp_private_ca_parent'') \<and>
     (GetString v ''ca'' = ''fileca'' \<longrightarrow>
        IsSet v ''fileca-cert'' \<and> IsSet v ''fileca-key'' \<and> IsSet v ''fileca-key-passwd'') \<and>
     (GetString v ''ca'' = ''kmsca'' \<longrightarrow> IsSet v ''kms-resource'' \<and> IsSet v ''kms-cert-chain-path'') \<and>
     (GetString v ''ca'' = ''tinkca'' \<longrightarrow>
        IsSet v ''tink-kms-resource'' \<and> IsSet v ''tink-cert-chain-path'' \<and>
        IsSet v ''tink-keyset-path'')"
  using assms by (auto simp: checkCA_def Let_def split: if_splits)

lemma construct_not_default: "construct w ca \<noteq> Inl InvalidConfiguredCA"
  by (simp add: construct_def split: option.splits)

lemma newBaseCA_default:
  assumes "GetString v ''ca'' \<in> {''googleca'', ''pkcs11ca'', ''fileca'', ''ephemeralca'', ''kmsca'', ''tinkca''}"
  shows "newBaseCA w v \<noteq> Inl InvalidConfiguredCA"
  using assms
  by (elim insertE emptyE)
     (simp_all add: newBaseCA_def Let_def construct_not_default split: sum.splits)

lemma startup_fatal_before_switch:
  assumes "checkServeCmdConfigFile w v0 = Inr v" and "snd (checkCA v) = Some f"
  shows "startup w v0 = Inl (case BindPFlags w of Some e \<Rightarrow> BindPFlagsFatal e | None \<Rightarrow> f)"
  using assms by (cases "checkCA v") (auto simp: startup_def split: option.splits)


lemma checkCA_not_default: "snd (checkCA u) \<noteq> Some InvalidConfiguredCA"
proof
  assume "snd (checkCA u) = Some InvalidConfiguredCA"
  then show False by (auto simp: checkCA_def Let_def split: if_splits)
qed

lemma clientSigningAlgorithms_not_default: "clientSigningAlgorithms w u \<noteq> Inl InvalidConfiguredCA"
  by (simp add: clientSigningAlgorithms_def split: sum.splits option.splits)

lemma newCTClient_not_default: "newCTClient w u \<noteq> Inl InvalidConfiguredCA"
proof -
  have opts: "ctOptions w u \<noteq> Inl InvalidConfiguredCA"
    by (simp add: ctOptions_def Let_def split: sum.splits)
  have hc: "ctHTTPClient w u \<noteq> Inl InvalidConfiguredCA"
    by (simp add: ctHTTPClient_def Let_def split: sum.splits)
  show ?thesis
    using opts hc
    by (auto simp: newCTClient_def Let_def split: sum.splits option.splits)
qed

lemma startup_Inl_cases:
  assumes "startup w v0 = Inl f"
  shows "(\<exists>e. f = ConfigFileFatal e) \<or> (\<exists>e. f = BindPFlagsFatal e) \<or>
     (\<exists>cp e. f = ConfigLoadFatal cp e) \<or>
     (\<exists>v. checkServeCmdConfigFile w v0 = Inr v \<and>
        (snd (checkCA v) = Some f \<or>
         snd (checkCA v) = None \<and>
           (clientSigningAlgorithms w v = Inl f \<or> newBaseCA w v = Inl f \<or>
            newCTClient w v = Inl f)))"
  using assms
  by (auto simp: startup_def split: sum.splits option.splits prod.splits)

lemma serve_not_default: "fatalError (serve w s) \<noteq> Some InvalidConfiguredCA"
  by (simp add: serve_def Let_def Fatal_def Return_def split: prod.splits option.splits)

subsection \<open>The example worlds, evaluated\<close>

lemmas example_defs =
  exampleViper_def entryViper_def initialViper_def exampleWorld_def exampleArgs_def
  GetString_def GetStringSlice_def GetBool_def GetInt_def IsSet_def find_value_def findSet_def
  normalizeName_def serveFlags_def defaultConfigPath_def

lemmas startup_defs =
  startup_def checkServeCmdConfigFile_def checkCA_def clientSigningAlgorithms_def configPath_def
  newBaseCA_def newCTClient_def ctOptions_def ctHTTPClient_def construct_def TrimSuffix_def
  HasSuffix_def exampleParse_def defaultAllowedAlgorithms_def Let_def

text \<open>\<^verbatim>\<open>serve --ca ephemeralca\<close>\<close>

lemma example_startup:
  "startup exampleWorld exampleViper =
     Inr \<lparr>settings = exampleViper,
          warnings = [ConfigPathFallBackToJson ''/etc/fulcio-config/config.yaml''],
          algorithmRegistry = defaultAllowedAlgorithms,
          loadedFrom = ''/etc/fulcio-config/config.json'',
          cfg = FulcioConfig ''{}'',
          baseca = EphemeralCA,
          ctClient = Some \<lparr>logURI = ''http://localhost:6962/test'',
                            httpClient = \<lparr>Timeout = 30 * Second, Transport = None\<rparr>,
                            clientOptions = \<lparr>PublicKey = []\<rparr>\<rparr>\<rparr>"
  by (simp add: startup_defs example_defs)

text \<open>\<^verbatim>\<open>serve --ca ephemeralca --ct-log-url ""\<close>\<close>

lemma example_startup_no_ct:
  "startup (exampleArgs [(''ca'', ''ephemeralca''), (''ct-log-url'', [])])
     (entryViper (exampleArgs [(''ca'', ''ephemeralca''), (''ct-log-url'', [])])) =
     Inr \<lparr>settings = entryViper (exampleArgs [(''ca'', ''ephemeralca''), (''ct-log-url'', [])]),
          warnings = [ConfigPathFallBackToJson ''/etc/fulcio-config/config.yaml''],
          algorithmRegistry = defaultAllowedAlgorithms,
          loadedFrom = ''/etc/fulcio-config/config.json'',
          cfg = FulcioConfig ''{}'',
          baseca = EphemeralCA,
          ctClient = None\<rparr>"
  by (simp add: startup_defs example_defs)

text \<open>
  \<^verbatim>\<open>serve --ca ephemeralca --ct-log-public-key-path /etc/ctlog/pub.pem
  --ct-log.tls-ca-cert /etc/ctlog/pub.pem --config-path /etc/fulcio-config/config.json\<close>
\<close>

lemma example_startup_pinned:
  "startup
     (exampleArgs [(''ca'', ''ephemeralca''), (''ct-log-public-key-path'', ''/etc/ctlog/pub.pem''),
        (''ct-log.tls-ca-cert'', ''/etc/ctlog/pub.pem''),
        (''config-path'', ''/etc/fulcio-config/config.json'')])
     (entryViper
       (exampleArgs [(''ca'', ''ephemeralca''), (''ct-log-public-key-path'', ''/etc/ctlog/pub.pem''),
          (''ct-log.tls-ca-cert'', ''/etc/ctlog/pub.pem''),
          (''config-path'', ''/etc/fulcio-config/config.json'')])) =
     Inr \<lparr>settings =
            entryViper
              (exampleArgs [(''ca'', ''ephemeralca''),
                 (''ct-log-public-key-path'', ''/etc/ctlog/pub.pem''),
                 (''ct-log.tls-ca-cert'', ''/etc/ctlog/pub.pem''),
                 (''config-path'', ''/etc/fulcio-config/config.json'')]),
          warnings = [],
          algorithmRegistry = defaultAllowedAlgorithms,
          loadedFrom = ''/etc/fulcio-config/config.json'',
          cfg = FulcioConfig ''{}'',
          baseca = EphemeralCA,
          ctClient = Some \<lparr>logURI = ''http://localhost:6962/test'',
                            httpClient =
                              \<lparr>Timeout = 30 * Second,
                               Transport = Some \<lparr>RootCAs = ''PUBLIC KEY'',
                                                  MinVersion = VersionTLS12\<rparr>\<rparr>,
                            clientOptions = \<lparr>PublicKey = ''PUBLIC KEY''\<rparr>\<rparr>\<rparr>"
  by (simp add: startup_defs example_defs)

text \<open>\<^verbatim>\<open>serve --ca ephemeralca --config-path /srv/fulcio.yaml\<close>, a file that does not exist.\<close>

lemma example_startup_no_config:
  "startup (exampleArgs [(''ca'', ''ephemeralca''), (''config-path'', ''/srv/fulcio.yaml'')])
     (entryViper (exampleArgs [(''ca'', ''ephemeralca''), (''config-path'', ''/srv/fulcio.yaml'')])) =
     Inl (ConfigLoadFatal ''/srv/fulcio.yaml'' ''no such file'')"
  by (simp add: startup_defs example_defs)

subsection \<open>Auxiliary facts on the CT client and the issuance handler\<close>

lemma newCTClient_Some_iff:
  assumes "newCTClient w v = Inr ct"
  shows "(ct \<noteq> None) = (GetString v ''ct-log-url'' \<noteq> [])"
  using assms
  by (auto simp: newCTClient_def Let_def split: if_splits sum.splits option.splits)

lemma newCTClient_Some:
  assumes "newCTClient w v = Inr (Some c)"
  shows "logURI c = GetString v ''ct-log-url''"
    and "ctOptions w v = Inr (clientOptions c)"
    and "ctHTTPClient w v = Inr (httpClient c)"
  using assms
  by (auto simp: newCTClient_def Let_def split: if_splits sum.splits option.splits)

lemma GetString_flag_default:
  assumes "\<not> IsSet v key" and "map_of (flagDefaults v) (normalizeName key) = Some (FString d)"
  shows "GetString v key = d"
  using assms by (simp add: IsSet_def GetString_def find_value_def)

lemma CreateSigningCertificate_no_client:
  "fst (CreateSigningCertificate None window now replies req) = []"
  "snd (CreateSigningCertificate None window now replies req) = Inr resp \<Longrightarrow>
     signed_certificate_timestamp resp = None"
  by (auto simp: CreateSigningCertificate_def Let_def split: if_splits option.splits)

subsection \<open>The receive limit of the duplex server\<close>

text \<open>
  Claim C10. The duplex gRPC server is configured with a maximum receive message size of
  exactly 4 MiB, that is \<open>2 ^ 22\<close> bytes: the constant \<^verbatim>\<open>maxMsgSize\<close>, converted to
  \<^verbatim>\<open>int\<close>, is the \<^verbatim>\<open>MaxRecvMsgSize\<close> option of \<^verbatim>\<open>duplex.New\<close>. A request
  message longer than the limit is answered by the transport with \<^verbatim>\<open>ResourceExhausted\<close>,
  whatever the interceptors and the handler are, so it reaches neither; a message of at
  most \<open>2 ^ 22\<close> bytes goes to the interceptor chain.
\<close>

theorem duplex_max_recv_msg_size:
  "MaxRecvMsgSize (duplexNew v c port) = 2 ^ 22 \<and>
   MaxRecvMsgSize (duplexNew v c port) = 4 * 1024 * 1024 \<and>
   (int (length msg) > 2 ^ 22 \<longrightarrow>
      serveUnary w lib (duplexNew v c port) handler msg = RpcError ResourceExhausted) \<and>
   (int (length msg) \<le> 2 ^ 22 \<longrightarrow>
      serveUnary w lib (duplexNew v c port) handler msg =
        ChainUnaryServer (map (interceptorOf w lib) (UnaryInterceptor (duplexNew v c port)))
          msg handler)"
  by (simp add: duplexNew_def serveUnary_def maxMsgSize_sint)

text \<open>
  At the example world: a message of \<open>2 ^ 22 + 1\<close> bytes is refused, and one of
  \<open>2 ^ 22\<close> bytes is answered by the handler.
\<close>

theorem duplex_max_recv_msg_size_witness:
  "serveUnary exampleWorld passOn (duplexNew exampleViper (FulcioConfig []) 8080) echoHandler
      (replicate 4194305 (CHR ''a'')) = RpcError ResourceExhausted \<and>
   serveUnary exampleWorld passOn (duplexNew exampleViper (FulcioConfig []) 8080) echoHandler
      (replicate 4194304 (CHR ''a'')) = Response (replicate 4194304 (CHR ''a''))"
proof -
  have over: "serveUnary exampleWorld passOn (duplexNew exampleViper (FulcioConfig []) 8080)
      echoHandler (replicate 4194305 (CHR ''a'')) = RpcError ResourceExhausted"
    using duplex_max_recv_msg_size [of exampleViper "FulcioConfig []" 8080
        "replicate 4194305 (CHR ''a'')" exampleWorld passOn echoHandler]
    by simp
  have at: "serveUnary exampleWorld passOn (duplexNew exampleViper (FulcioConfig []) 8080)
      echoHandler (replicate 4194304 (CHR ''a'')) =
      ChainUnaryServer (map (interceptorOf exampleWorld passOn)
        (UnaryInterceptor (duplexNew exampleViper (FulcioConfig []) 8080)))
        (replicate 4194304 (CHR ''a'')) echoHandler"
    using duplex_max_recv_msg_size [of exampleViper "FulcioConfig []" 8080
        "replicate 4194304 (CHR ''a'')" exampleWorld passOn echoHandler]
    by simp
  have chain: "ChainUnaryServer (map (interceptorOf exampleWorld passOn)
        (UnaryInterceptor (duplexNew exampleViper (FulcioConfig []) 8080))) m echoHandler =
      Response m" for m
    by (simp add: duplexNew_def interceptorOf_def recoveryInterceptor_def passOn_def
        echoHandler_def)
  show ?thesis using over at chain by simp
qed

subsection \<open>The CT log client\<close>

text \<open>
  Claim C1. For every start of the server (every run of \<^verbatim>\<open>runServeCmd\<close> that reaches
  its servers), a CT log client has been constructed if and only if the effective value of
  \<^verbatim>\<open>ct-log-url\<close> is a non-empty string, and the client is for that URL. When the value is
  empty there is no client, the issuance handler submits nothing to a log, and a response
  carries no SCT. The declared default of the flag is \<^verbatim>\<open>http://localhost:6962/test\<close>, so
  a server for which \<^verbatim>\<open>ct-log-url\<close> is not set by flag, environment or config file has a
  CT client.
\<close>

theorem ct_client_iff_log_url:
  assumes "startup w v0 = Inr s"
  shows "((ctClient s \<noteq> None) = (GetString (settings s) ''ct-log-url'' \<noteq> [])) \<and>
     (\<forall>c. ctClient s = Some c \<longrightarrow> logURI c = GetString (settings s) ''ct-log-url'') \<and>
     (GetString (settings s) ''ct-log-url'' = [] \<longrightarrow>
        ctClient s = None \<and>
        fst (CreateSigningCertificate (ctClient s) window now replies req) = [] \<and>
        (\<forall>resp. snd (CreateSigningCertificate (ctClient s) window now replies req) = Inr resp
           \<longrightarrow> signed_certificate_timestamp resp = None)) \<and>
     (flagDefaults (settings s) = serveFlags sock algorithms \<and>
      \<not> IsSet (settings s) ''ct-log-url'' \<longrightarrow>
        GetString (settings s) ''ct-log-url'' = ''http://localhost:6962/test'' \<and>
        ctClient s \<noteq> None)"
proof -
  note ct = startup_Inr(8) [OF assms]
  have iff: "(ctClient s \<noteq> None) = (GetString (settings s) ''ct-log-url'' \<noteq> [])"
    by (rule newCTClient_Some_iff [OF ct])
  have uri: "\<forall>c. ctClient s = Some c \<longrightarrow> logURI c = GetString (settings s) ''ct-log-url''"
    using ct newCTClient_Some(1) by auto
  have off: "GetString (settings s) ''ct-log-url'' = [] \<longrightarrow>
        ctClient s = None \<and>
        fst (CreateSigningCertificate (ctClient s) window now replies req) = [] \<and>
        (\<forall>resp. snd (CreateSigningCertificate (ctClient s) window now replies req) = Inr resp
           \<longrightarrow> signed_certificate_timestamp resp = None)"
    using iff CreateSigningCertificate_no_client by auto
  have dflt: "flagDefaults (settings s) = serveFlags sock algorithms \<and>
      \<not> IsSet (settings s) ''ct-log-url'' \<longrightarrow>
        GetString (settings s) ''ct-log-url'' = ''http://localhost:6962/test'' \<and>
        ctClient s \<noteq> None"
  proof (intro impI, elim conjE)
    assume fd: "flagDefaults (settings s) = serveFlags sock algorithms"
      and ns: "\<not> IsSet (settings s) ''ct-log-url''"
    have "map_of (flagDefaults (settings s)) (normalizeName ''ct-log-url'') =
        Some (FString ''http://localhost:6962/test'')"
      by (simp add: fd serveFlags_def normalizeName_def)
    from GetString_flag_default [OF ns this]
    have "GetString (settings s) ''ct-log-url'' = ''http://localhost:6962/test''" .
    with iff show "GetString (settings s) ''ct-log-url'' = ''http://localhost:6962/test'' \<and>
        ctClient s \<noteq> None" by simp
  qed
  from iff uri off dflt show ?thesis by blast
qed

text \<open>
  Two starts of the example world: without \<^verbatim>\<open>ct-log-url\<close> on the command line the
  server has a client for the default URL, and with \<^verbatim>\<open>--ct-log-url ""\<close> it has none,
  and a successful issuance submits nothing and carries no SCT.
\<close>

theorem ct_client_iff_log_url_witness:
  "(\<exists>s c. startup exampleWorld exampleViper = Inr s \<and> ctClient s = Some c \<and>
      logURI c = ''http://localhost:6962/test'' \<and>
      GetString (settings s) ''ct-log-url'' = ''http://localhost:6962/test'') \<and>
   (\<exists>s resp. startup (exampleArgs [(''ca'', ''ephemeralca''), (''ct-log-url'', [])])
        (entryViper (exampleArgs [(''ca'', ''ephemeralca''), (''ct-log-url'', [])])) = Inr s \<and>
      GetString (settings s) ''ct-log-url'' = [] \<and> ctClient s = None \<and>
      CreateSigningCertificate (ctClient s) 600 0 [SCT ''sct''] exampleRequest = ([], Inr resp) \<and>
      signed_certificate_timestamp resp = None)"
proof -
  obtain s1 where st1: "startup exampleWorld exampleViper = Inr s1"
    and se1: "settings s1 = exampleViper"
    and cl1: "ctClient s1 = Some \<lparr>logURI = ''http://localhost:6962/test'',
        httpClient = \<lparr>Timeout = 30 * Second, Transport = None\<rparr>,
        clientOptions = \<lparr>PublicKey = []\<rparr>\<rparr>"
    by (simp add: example_startup)
  note on = ct_client_iff_log_url [OF st1, of 600 0 "[SCT ''sct'']" exampleRequest
      "LegacyUnixDomainSocket exampleWorld"
      "map (\<lambda>a. projr (exampleFormat a)) defaultAllowedAlgorithms", unfolded se1]
  have unset: "\<not> IsSet exampleViper ''ct-log-url''" by (simp add: example_defs)
  have fd: "flagDefaults exampleViper = serveFlags (LegacyUnixDomainSocket exampleWorld)
      (map (\<lambda>a. projr (exampleFormat a)) defaultAllowedAlgorithms)"
    by (simp add: exampleViper_def entryViper_def initialViper_def exampleWorld_def)
  from on unset fd have url: "GetString exampleViper ''ct-log-url'' = ''http://localhost:6962/test''"
    by blast
  have first: "\<exists>s c. startup exampleWorld exampleViper = Inr s \<and> ctClient s = Some c \<and>
      logURI c = ''http://localhost:6962/test'' \<and>
      GetString (settings s) ''ct-log-url'' = ''http://localhost:6962/test''"
    using st1 se1 cl1 url by simp
  obtain s2 where st2: "startup (exampleArgs [(''ca'', ''ephemeralca''), (''ct-log-url'', [])])
        (entryViper (exampleArgs [(''ca'', ''ephemeralca''), (''ct-log-url'', [])])) = Inr s2"
    and se2: "settings s2 = entryViper (exampleArgs [(''ca'', ''ephemeralca''), (''ct-log-url'', [])])"
    by (simp add: example_startup_no_ct)
  note off = ct_client_iff_log_url [OF st2, of 600 0 "[SCT ''sct'']" exampleRequest,
      unfolded se2]
  have empty: "GetString (entryViper (exampleArgs [(''ca'', ''ephemeralca''), (''ct-log-url'', [])]))
      ''ct-log-url'' = []"
    by (simp add: example_defs)
  from off empty have none: "ctClient s2 = None" by blast
  have issue: "CreateSigningCertificate None 600 0 [SCT ''sct''] exampleRequest =
      ([], Inr \<lparr>certificate =
                  \<lparr>NotBefore = 0, NotAfter = 600,
                   Extensions = [SigstoreExtension ''1.3.6.1.4.1.57264.1.1''
                                   ''https://accounts.example'']\<rparr>,
                signed_certificate_timestamp = None\<rparr>)"
    by (simp add: CreateSigningCertificate_def exampleRequest_def)
  have second: "\<exists>s resp. startup (exampleArgs [(''ca'', ''ephemeralca''), (''ct-log-url'', [])])
        (entryViper (exampleArgs [(''ca'', ''ephemeralca''), (''ct-log-url'', [])])) = Inr s \<and>
      GetString (settings s) ''ct-log-url'' = [] \<and> ctClient s = None \<and>
      CreateSigningCertificate (ctClient s) 600 0 [SCT ''sct''] exampleRequest = ([], Inr resp) \<and>
      signed_certificate_timestamp resp = None"
    using st2 se2 empty none issue by simp
  from first second show ?thesis by blast
qed

subsection \<open>The pinned public key of the CT log\<close>

lemma ctOptions_Inr:
  assumes "ctOptions w v = Inr opts"
  shows "(GetString v ''ct-log-public-key-path'' \<noteq> [] \<longrightarrow>
        ReadFile w (Clean w (GetString v ''ct-log-public-key-path'')) = Inr (PublicKey opts)) \<and>
     (GetString v ''ct-log-public-key-path'' = [] \<longrightarrow> PublicKey opts = [])"
  using assms
  by (auto simp: ctOptions_def Let_def split: if_splits sum.splits)

text \<open>
  Claim C5. Where the server has a CT client: when \<^verbatim>\<open>ct-log-public-key-path\<close> is
  non-empty, the content of the file at that path (the path cleaned by
  \<^verbatim>\<open>filepath.Clean\<close>) is the \<^verbatim>\<open>PublicKey\<close> option of the client, the key against
  which SCTs are verified; when the setting is empty the option is the empty string, that
  is, no key is pinned. A file that cannot be read is a fatal error of the startup.
\<close>

theorem pinned_public_key:
  assumes "startup w v0 = Inr s" and "ctClient s = Some c"
  shows "(GetString (settings s) ''ct-log-public-key-path'' \<noteq> [] \<longrightarrow>
        ReadFile w (Clean w (GetString (settings s) ''ct-log-public-key-path'')) =
          Inr (PublicKey (clientOptions c))) \<and>
     (GetString (settings s) ''ct-log-public-key-path'' = [] \<longrightarrow>
        PublicKey (clientOptions c) = [])"
proof -
  from startup_Inr(8) [OF assms(1)] assms(2)
  have "newCTClient w (settings s) = Inr (Some c)" by simp
  from newCTClient_Some(2) [OF this]
  have "ctOptions w (settings s) = Inr (clientOptions c)" .
  from ctOptions_Inr [OF this] show ?thesis .
qed

text \<open>
  Started with \<^verbatim>\<open>--ct-log-public-key-path /etc/ctlog/pub.pem\<close>, the example world pins
  the content of that file; started without, it pins nothing.
\<close>

theorem pinned_public_key_witness:
  "(\<exists>s c. startup
        (exampleArgs [(''ca'', ''ephemeralca''),
           (''ct-log-public-key-path'', ''/etc/ctlog/pub.pem''),
           (''ct-log.tls-ca-cert'', ''/etc/ctlog/pub.pem''),
           (''config-path'', ''/etc/fulcio-config/config.json'')])
        (entryViper
          (exampleArgs [(''ca'', ''ephemeralca''),
             (''ct-log-public-key-path'', ''/etc/ctlog/pub.pem''),
             (''ct-log.tls-ca-cert'', ''/etc/ctlog/pub.pem''),
             (''config-path'', ''/etc/fulcio-config/config.json'')])) = Inr s \<and>
      ctClient s = Some c \<and>
      GetString (settings s) ''ct-log-public-key-path'' = ''/etc/ctlog/pub.pem'' \<and>
      ReadFile exampleWorld ''/etc/ctlog/pub.pem'' = Inr (PublicKey (clientOptions c)) \<and>
      PublicKey (clientOptions c) = ''PUBLIC KEY'') \<and>
   (\<exists>s c. startup exampleWorld exampleViper = Inr s \<and> ctClient s = Some c \<and>
      GetString (settings s) ''ct-log-public-key-path'' = [] \<and>
      PublicKey (clientOptions c) = [])"
proof -
  define args where "args = [(''ca'', ''ephemeralca''),
           (''ct-log-public-key-path'', ''/etc/ctlog/pub.pem''),
           (''ct-log.tls-ca-cert'', ''/etc/ctlog/pub.pem''),
           (''config-path'', ''/etc/fulcio-config/config.json'')]"
  obtain s1 c1 where st1: "startup (exampleArgs args) (entryViper (exampleArgs args)) = Inr s1"
    and se1: "settings s1 = entryViper (exampleArgs args)"
    and cl1: "ctClient s1 = Some c1"
    and pk1: "PublicKey (clientOptions c1) = ''PUBLIC KEY''"
    unfolding args_def by (simp add: example_startup_pinned)
  note pinned = pinned_public_key [OF st1 cl1, unfolded se1]
  have path: "GetString (entryViper (exampleArgs args)) ''ct-log-public-key-path'' =
      ''/etc/ctlog/pub.pem''"
    unfolding args_def by (simp add: example_defs)
  have same: "ReadFile (exampleArgs args) = ReadFile exampleWorld"
    "Clean (exampleArgs args) = (\<lambda>p. p)"
    by (simp_all add: exampleArgs_def exampleWorld_def)
  from pinned path same
  have rd: "ReadFile exampleWorld ''/etc/ctlog/pub.pem'' = Inr (PublicKey (clientOptions c1))"
    by simp
  have first: "\<exists>s c. startup (exampleArgs args) (entryViper (exampleArgs args)) = Inr s \<and>
      ctClient s = Some c \<and>
      GetString (settings s) ''ct-log-public-key-path'' = ''/etc/ctlog/pub.pem'' \<and>
      ReadFile exampleWorld ''/etc/ctlog/pub.pem'' = Inr (PublicKey (clientOptions c)) \<and>
      PublicKey (clientOptions c) = ''PUBLIC KEY''"
    using st1 se1 cl1 pk1 path rd by auto
  obtain s2 c2 where st2: "startup exampleWorld exampleViper = Inr s2"
    and se2: "settings s2 = exampleViper"
    and cl2: "ctClient s2 = Some c2"
    by (simp add: example_startup)
  note unpinned = pinned_public_key [OF st2 cl2, unfolded se2]
  have nopath: "GetString exampleViper ''ct-log-public-key-path'' = []"
    by (simp add: example_defs)
  from unpinned nopath have pk2: "PublicKey (clientOptions c2) = []" by blast
  have second: "\<exists>s c. startup exampleWorld exampleViper = Inr s \<and> ctClient s = Some c \<and>
      GetString (settings s) ''ct-log-public-key-path'' = [] \<and>
      PublicKey (clientOptions c) = []"
    using st2 se2 cl2 nopath pk2 by auto
  from first second show ?thesis unfolding args_def by blast
qed

subsection \<open>The timeout of the CT log's HTTP client\<close>

lemma thirty_seconds: "sint (30 * Second) = 30000000000"
  by (simp add: Second_def)

text \<open>
  Claim C6. The HTTP client for the CT log is constructed with a timeout of exactly 30
  seconds (\<open>30 * 10^9\<close> nanoseconds, without overflow of the \<^verbatim>\<open>int64\<close>), both when
  \<^verbatim>\<open>ct-log.tls-ca-cert\<close> is set, where the client has a transport with the custom root
  pool, and when it is not, where it has the default transport; and this is the HTTP client
  of the CT client of every server that has one.
\<close>

theorem ct_http_client_timeout:
  "(ctHTTPClient w v = Inr hc \<longrightarrow>
      Timeout hc = 30 * Second \<and> sint (Timeout hc) = 30 * 1000000000 \<and>
      ((Transport hc \<noteq> None) = (GetString v ''ct-log.tls-ca-cert'' \<noteq> []))) \<and>
   (startup w v0 = Inr s \<and> ctClient s = Some c \<longrightarrow>
      ctHTTPClient w (settings s) = Inr (httpClient c) \<and>
      Timeout (httpClient c) = 30 * Second)"
proof -
  have a: "ctHTTPClient w u = Inr h \<Longrightarrow>
      Timeout h = 30 * Second \<and> sint (Timeout h) = 30 * 1000000000 \<and>
      ((Transport h \<noteq> None) = (GetString u ''ct-log.tls-ca-cert'' \<noteq> []))" for u h
    by (auto simp: ctHTTPClient_def Let_def thirty_seconds split: if_splits sum.splits)
  have b: "startup w v0 = Inr s \<and> ctClient s = Some c \<longrightarrow>
      ctHTTPClient w (settings s) = Inr (httpClient c) \<and>
      Timeout (httpClient c) = 30 * Second"
  proof (intro impI, elim conjE)
    assume st: "startup w v0 = Inr s" and cl: "ctClient s = Some c"
    from startup_Inr(8) [OF st] cl have "newCTClient w (settings s) = Inr (Some c)" by simp
    from newCTClient_Some(3) [OF this]
    have h: "ctHTTPClient w (settings s) = Inr (httpClient c)" .
    with a [OF h] show "ctHTTPClient w (settings s) = Inr (httpClient c) \<and>
      Timeout (httpClient c) = 30 * Second" by simp
  qed
  from a b show ?thesis by blast
qed

text \<open>Both configurations at the example world.\<close>

theorem ct_http_client_timeout_witness:
  "(\<exists>s c t. startup
        (exampleArgs [(''ca'', ''ephemeralca''),
           (''ct-log-public-key-path'', ''/etc/ctlog/pub.pem''),
           (''ct-log.tls-ca-cert'', ''/etc/ctlog/pub.pem''),
           (''config-path'', ''/etc/fulcio-config/config.json'')])
        (entryViper
          (exampleArgs [(''ca'', ''ephemeralca''),
             (''ct-log-public-key-path'', ''/etc/ctlog/pub.pem''),
             (''ct-log.tls-ca-cert'', ''/etc/ctlog/pub.pem''),
             (''config-path'', ''/etc/fulcio-config/config.json'')])) = Inr s \<and>
      ctClient s = Some c \<and> Transport (httpClient c) = Some t \<and>
      sint (Timeout (httpClient c)) = 30000000000) \<and>
   (\<exists>s c. startup exampleWorld exampleViper = Inr s \<and> ctClient s = Some c \<and>
      Transport (httpClient c) = None \<and> sint (Timeout (httpClient c)) = 30000000000)"
proof -
  define args where "args = [(''ca'', ''ephemeralca''),
           (''ct-log-public-key-path'', ''/etc/ctlog/pub.pem''),
           (''ct-log.tls-ca-cert'', ''/etc/ctlog/pub.pem''),
           (''config-path'', ''/etc/fulcio-config/config.json'')]"
  obtain s1 c1 t1 where st1: "startup (exampleArgs args) (entryViper (exampleArgs args)) = Inr s1"
    and cl1: "ctClient s1 = Some c1"
    and tr1: "Transport (httpClient c1) = Some t1"
    unfolding args_def by (simp add: example_startup_pinned)
  from ct_http_client_timeout [where w = "exampleArgs args"
      and ?v0.0 = "entryViper (exampleArgs args)" and s = s1 and c = c1] st1 cl1
  have "Timeout (httpClient c1) = 30 * Second" by blast
  then have to1: "sint (Timeout (httpClient c1)) = 30000000000" by (simp add: thirty_seconds)
  have first: "\<exists>s c t. startup (exampleArgs args) (entryViper (exampleArgs args)) = Inr s \<and>
      ctClient s = Some c \<and> Transport (httpClient c) = Some t \<and>
      sint (Timeout (httpClient c)) = 30000000000"
    using st1 cl1 tr1 to1 by blast
  obtain s2 c2 where st2: "startup exampleWorld exampleViper = Inr s2"
    and cl2: "ctClient s2 = Some c2"
    and tr2: "Transport (httpClient c2) = None"
    by (simp add: example_startup)
  from ct_http_client_timeout [where w = exampleWorld and ?v0.0 = exampleViper
      and s = s2 and c = c2] st2 cl2
  have "Timeout (httpClient c2) = 30 * Second" by blast
  then have to2: "sint (Timeout (httpClient c2)) = 30000000000" by (simp add: thirty_seconds)
  have second: "\<exists>s c. startup exampleWorld exampleViper = Inr s \<and> ctClient s = Some c \<and>
      Transport (httpClient c) = None \<and> sint (Timeout (httpClient c)) = 30000000000"
    using st2 cl2 tr2 to2 by blast
  from first second show ?thesis unfolding args_def by blast
qed

subsection \<open>The path of the configuration file\<close>

lemma json_fallback:
  "TrimSuffix defaultConfigPath ''.yaml'' @ ''.json'' = ''/etc/fulcio-config/config.json''"
  by (simp add: TrimSuffix_def HasSuffix_def defaultConfigPath_def)

text \<open>
  Claim C9 as it is stated says that the server retargets the loading silently. At the
  example world, where \<^verbatim>\<open>config-path\<close> has its default and no file exists there, the
  path becomes \<^verbatim>\<open>/etc/fulcio-config/config.json\<close> and the log receives the warning of
  line 247 (\<^verbatim>\<open>warn loading --config-path=..., fall back to json\<close>): the change of path
  is not silent.
\<close>

theorem config_path_fallback_not_silent:
  "GetString exampleViper ''config-path'' = defaultConfigPath \<and>
   Stat exampleWorld defaultConfigPath = Some ErrNotExist \<and>
   snd (configPath exampleWorld exampleViper) = ''/etc/fulcio-config/config.json'' \<and>
   fst (configPath exampleWorld exampleViper) =
     [ConfigPathFallBackToJson ''/etc/fulcio-config/config.yaml''] \<and>
   fst (configPath exampleWorld exampleViper) \<noteq> []"
  by (simp add: configPath_def example_defs TrimSuffix_def HasSuffix_def)

text \<open>
  Claim C9, amended. When \<^verbatim>\<open>config-path\<close> has the built-in default
  \<^verbatim>\<open>/etc/fulcio-config/config.yaml\<close> and \<^verbatim>\<open>os.Stat\<close> reports that no file exists there,
  the server logs one warning and gives \<^verbatim>\<open>/etc/fulcio-config/config.json\<close> to
  \<^verbatim>\<open>config.Load\<close>; the startup does not end there. When the default path exists, and
  for every other value of \<^verbatim>\<open>config-path\<close>, the path is left as it is and nothing is
  logged. The path so computed is the one the configuration of a started server was
  loaded from.
\<close>

theorem config_path_fallback:
  "defaultConfigPath = ''/etc/fulcio-config/config.yaml'' \<and>
   (GetString v ''config-path'' = defaultConfigPath \<and> Stat w defaultConfigPath = Some ErrNotExist
      \<longrightarrow> configPath w v =
            ([ConfigPathFallBackToJson defaultConfigPath], ''/etc/fulcio-config/config.json'')) \<and>
   (GetString v ''config-path'' = defaultConfigPath \<and> Stat w defaultConfigPath \<noteq> Some ErrNotExist
      \<longrightarrow> configPath w v = ([], defaultConfigPath)) \<and>
   (GetString v ''config-path'' \<noteq> defaultConfigPath
      \<longrightarrow> configPath w v = ([], GetString v ''config-path'')) \<and>
   (startup w v0 = Inr s
      \<longrightarrow> loadedFrom s = snd (configPath w (settings s)) \<and>
          configLoad w (snd (configPath w (settings s))) = Inr (cfg s))"
proof -
  have a: "defaultConfigPath = ''/etc/fulcio-config/config.yaml''"
    by (simp add: defaultConfigPath_def)
  have b: "GetString v ''config-path'' = defaultConfigPath \<and>
      Stat w defaultConfigPath = Some ErrNotExist
      \<longrightarrow> configPath w v =
            ([ConfigPathFallBackToJson defaultConfigPath], ''/etc/fulcio-config/config.json'')"
    by (simp add: configPath_def Let_def json_fallback)
  have c: "GetString v ''config-path'' = defaultConfigPath \<and>
      Stat w defaultConfigPath \<noteq> Some ErrNotExist
      \<longrightarrow> configPath w v = ([], defaultConfigPath)"
    by (simp add: configPath_def Let_def split: option.splits stat_error.splits)
  have d: "GetString v ''config-path'' \<noteq> defaultConfigPath
      \<longrightarrow> configPath w v = ([], GetString v ''config-path'')"
    by (simp add: configPath_def Let_def)
  have e: "startup w v0 = Inr s
      \<longrightarrow> loadedFrom s = snd (configPath w (settings s)) \<and>
          configLoad w (snd (configPath w (settings s))) = Inr (cfg s)"
    using startup_Inr(5,6) [of w v0 s] by auto
  from a b c d e show ?thesis by blast
qed

text \<open>
  At the example world, where only \<^verbatim>\<open>/etc/fulcio-config/config.json\<close> exists: with the
  default \<^verbatim>\<open>config-path\<close> the server loads the JSON file; with
  \<^verbatim>\<open>--config-path /srv/fulcio.yaml\<close>, which does not exist either, the path is kept and
  loading it is fatal.
\<close>

theorem config_path_fallback_witness:
  "GetString exampleViper ''config-path'' = ''/etc/fulcio-config/config.yaml'' \<and>
   Stat exampleWorld ''/etc/fulcio-config/config.yaml'' = Some ErrNotExist \<and>
   configPath exampleWorld exampleViper =
     ([ConfigPathFallBackToJson ''/etc/fulcio-config/config.yaml''],
      ''/etc/fulcio-config/config.json'') \<and>
   (\<exists>s. startup exampleWorld exampleViper = Inr s \<and>
      loadedFrom s = ''/etc/fulcio-config/config.json'') \<and>
   configPath (exampleArgs [(''ca'', ''ephemeralca''), (''config-path'', ''/srv/fulcio.yaml'')])
     (entryViper (exampleArgs [(''ca'', ''ephemeralca''), (''config-path'', ''/srv/fulcio.yaml'')])) =
     ([], ''/srv/fulcio.yaml'') \<and>
   startup (exampleArgs [(''ca'', ''ephemeralca''), (''config-path'', ''/srv/fulcio.yaml'')])
     (entryViper (exampleArgs [(''ca'', ''ephemeralca''), (''config-path'', ''/srv/fulcio.yaml'')])) =
     Inl (ConfigLoadFatal ''/srv/fulcio.yaml'' ''no such file'')"
proof -
  define w2 where "w2 = exampleArgs [(''ca'', ''ephemeralca''), (''config-path'', ''/srv/fulcio.yaml'')]"
  obtain s1 where st1: "startup exampleWorld exampleViper = Inr s1"
    and se1: "settings s1 = exampleViper"
    by (simp add: example_startup)
  note t1 = config_path_fallback [where v = exampleViper and w = exampleWorld
      and ?v0.0 = exampleViper and s = s1, unfolded se1]
  have dp: "defaultConfigPath = ''/etc/fulcio-config/config.yaml''"
    by (simp add: defaultConfigPath_def)
  have cp1: "GetString exampleViper ''config-path'' = defaultConfigPath"
    by (simp add: example_defs)
  have stat1: "Stat exampleWorld defaultConfigPath = Some ErrNotExist"
    by (simp add: exampleWorld_def defaultConfigPath_def)
  from t1 cp1 stat1 have p1: "configPath exampleWorld exampleViper =
      ([ConfigPathFallBackToJson defaultConfigPath], ''/etc/fulcio-config/config.json'')"
    by blast
  from t1 st1 have "loadedFrom s1 = snd (configPath exampleWorld exampleViper)" by blast
  with p1 have l1: "loadedFrom s1 = ''/etc/fulcio-config/config.json''" by simp
  note t2 = config_path_fallback [where v = "entryViper w2" and w = w2]
  have cp2: "GetString (entryViper w2) ''config-path'' = ''/srv/fulcio.yaml''"
    unfolding w2_def by (simp add: example_defs)
  have ne: "''/srv/fulcio.yaml'' \<noteq> defaultConfigPath" by (simp add: defaultConfigPath_def)
  from t2 cp2 ne have p2: "configPath w2 (entryViper w2) = ([], ''/srv/fulcio.yaml'')"
    by metis
  have f2: "startup w2 (entryViper w2) = Inl (ConfigLoadFatal ''/srv/fulcio.yaml'' ''no such file'')"
    unfolding w2_def by (rule example_startup_no_config)
  from cp1 stat1 p1 st1 l1 p2 f2 show ?thesis
    unfolding w2_def dp by auto
qed

subsection \<open>The two switches on the CA\<close>

text \<open>
  Claim C8. In the switch of \<^verbatim>\<open>runServeCmd\<close> that constructs the CA, the default branch
  is unreachable: when the first switch has not ended the process, the value of
  \<^verbatim>\<open>ca\<close> is one of \<^verbatim>\<open>googleca\<close>, \<^verbatim>\<open>pkcs11ca\<close>, \<^verbatim>\<open>fileca\<close>,
  \<^verbatim>\<open>ephemeralca\<close>, \<^verbatim>\<open>kmsca\<close> and \<^verbatim>\<open>tinkca\<close>, the second switch does not produce
  the error of its default branch, and no run of the command ends with that error.
\<close>

theorem ca_switch_default_unreachable:
  "(snd (checkCA v) = None \<longrightarrow>
      GetString v ''ca'' \<in> {''googleca'', ''pkcs11ca'', ''fileca'', ''ephemeralca'', ''kmsca'', ''tinkca''} \<and>
      newBaseCA w v \<noteq> Inl InvalidConfiguredCA) \<and>
   startup w v0 \<noteq> Inl InvalidConfiguredCA \<and>
   fatalError (runServeCmd w v0) \<noteq> Some InvalidConfiguredCA"
proof -
  have a: "snd (checkCA v) = None \<longrightarrow>
      GetString v ''ca'' \<in> {''googleca'', ''pkcs11ca'', ''fileca'', ''ephemeralca'', ''kmsca'', ''tinkca''} \<and>
      newBaseCA w v \<noteq> Inl InvalidConfiguredCA" for v
    using checkCA_None [of v] newBaseCA_default [of v w] by blast
  have b: "startup w v0 \<noteq> Inl InvalidConfiguredCA"
  proof
    assume st: "startup w v0 = Inl InvalidConfiguredCA"
    from startup_Inl_cases [OF st] show False
      using checkCA_not_default clientSigningAlgorithms_not_default newCTClient_not_default a
      by auto
  qed
  have c: "fatalError (runServeCmd w v0) \<noteq> Some InvalidConfiguredCA"
  proof (cases "startup w v0")
    case (Inl f)
    with b show ?thesis by (auto simp: runServeCmd_def Fatal_def)
  next
    case (Inr s)
    then show ?thesis
      using serve_not_default [of w s] by (simp add: runServeCmd_def)
  qed
  from a b c show ?thesis by blast
qed

text \<open>At the example world the first switch passes and the second builds the ephemeral CA.\<close>

theorem ca_switch_default_unreachable_witness:
  "snd (checkCA exampleViper) = None \<and>
   GetString exampleViper ''ca'' = ''ephemeralca'' \<and>
   newBaseCA exampleWorld exampleViper = Inr EphemeralCA \<and>
   fatalError (runServeCmd exampleWorld exampleViper) \<noteq> Some InvalidConfiguredCA"
proof -
  have chk: "snd (checkCA exampleViper) = None"
    by (simp add: checkCA_def example_defs)
  have ca: "GetString exampleViper ''ca'' = ''ephemeralca''"
    by (simp add: example_defs)
  have nca: "newBaseCA exampleWorld exampleViper = Inr EphemeralCA"
    by (simp add: newBaseCA_def construct_def example_defs)
  from ca_switch_default_unreachable [of exampleViper exampleWorld exampleViper] chk
  have "fatalError (runServeCmd exampleWorld exampleViper) \<noteq> Some InvalidConfiguredCA"
    by blast
  with chk ca nca show ?thesis by simp
qed

text \<open>
  Claim C2. For every invocation of the serve command: when, in the settings in force
  after the optional config file has been read, \<^verbatim>\<open>ca\<close> is empty, or names none of the
  six backends, or names \<^verbatim>\<open>pkcs11ca\<close> while \<^verbatim>\<open>hsm-caroot-id\<close> is not set, or
  \<^verbatim>\<open>googleca\<close> while \<^verbatim>\<open>gcp_private_ca_parent\<close> is not set, or \<^verbatim>\<open>fileca\<close> while
  one of \<^verbatim>\<open>fileca-cert\<close>, \<^verbatim>\<open>fileca-key\<close>, \<^verbatim>\<open>fileca-key-passwd\<close> is not set, or
  \<^verbatim>\<open>kmsca\<close> while one of \<^verbatim>\<open>kms-resource\<close>, \<^verbatim>\<open>kms-cert-chain-path\<close> is not set,
  or \<^verbatim>\<open>tinkca\<close> while one of \<^verbatim>\<open>tink-kms-resource\<close>, \<^verbatim>\<open>tink-cert-chain-path\<close>,
  \<^verbatim>\<open>tink-keyset-path\<close> is not set, then the process ends with a fatal log call: its
  exit status is 1 and nothing has been set serving. The fatal error is the one of the
  first switch, unless binding the flags has failed before it. When reading the config
  file fails, the process ends in the same way before the settings are looked at.
\<close>

theorem fatal_on_invalid_ca:
  "(checkServeCmdConfigFile w v0 = Inl e \<longrightarrow>
      runServeCmd w v0 = Fatal (ConfigFileFatal e) []) \<and>
   (checkServeCmdConfigFile w v0 = Inr v \<and>
    (GetString v ''ca'' = [] \<or>
     GetString v ''ca'' \<notin>
       {''googleca'', ''pkcs11ca'', ''fileca'', ''ephemeralca'', ''kmsca'', ''tinkca''} \<or>
     GetString v ''ca'' = ''pkcs11ca'' \<and> \<not> IsSet v ''hsm-caroot-id'' \<or>
     GetString v ''ca'' = ''googleca'' \<and> \<not> IsSet v ''gcp_private_ca_parent'' \<or>
     GetString v ''ca'' = ''fileca'' \<and>
       (\<not> IsSet v ''fileca-cert'' \<or> \<not> IsSet v ''fileca-key'' \<or>
        \<not> IsSet v ''fileca-key-passwd'') \<or>
     GetString v ''ca'' = ''kmsca'' \<and>
       (\<not> IsSet v ''kms-resource'' \<or> \<not> IsSet v ''kms-cert-chain-path'') \<or>
     GetString v ''ca'' = ''tinkca'' \<and>
       (\<not> IsSet v ''tink-kms-resource'' \<or> \<not> IsSet v ''tink-cert-chain-path'' \<or>
        \<not> IsSet v ''tink-keyset-path''))
    \<longrightarrow>
      (\<exists>f. snd (checkCA v) = Some f \<and>
           runServeCmd w v0 =
             Fatal (case BindPFlags w of Some b \<Rightarrow> BindPFlagsFatal b | None \<Rightarrow> f) []) \<and>
      exitCode (runServeCmd w v0) = 1 \<and>
      started (runServeCmd w v0) = [] \<and>
      fatalError (runServeCmd w v0) \<noteq> None)"
proof -
  have a: "checkServeCmdConfigFile w v0 = Inl e \<longrightarrow>
      runServeCmd w v0 = Fatal (ConfigFileFatal e) []"
    by (simp add: runServeCmd_def startup_def)
  have b: "(\<exists>f. snd (checkCA v) = Some f \<and>
           runServeCmd w v0 =
             Fatal (case BindPFlags w of Some b \<Rightarrow> BindPFlagsFatal b | None \<Rightarrow> f) []) \<and>
      exitCode (runServeCmd w v0) = 1 \<and>
      started (runServeCmd w v0) = [] \<and>
      fatalError (runServeCmd w v0) \<noteq> None"
    if cf: "checkServeCmdConfigFile w v0 = Inr v"
      and bad: "GetString v ''ca'' = [] \<or>
     GetString v ''ca'' \<notin>
       {''googleca'', ''pkcs11ca'', ''fileca'', ''ephemeralca'', ''kmsca'', ''tinkca''} \<or>
     GetString v ''ca'' = ''pkcs11ca'' \<and> \<not> IsSet v ''hsm-caroot-id'' \<or>
     GetString v ''ca'' = ''googleca'' \<and> \<not> IsSet v ''gcp_private_ca_parent'' \<or>
     GetString v ''ca'' = ''fileca'' \<and>
       (\<not> IsSet v ''fileca-cert'' \<or> \<not> IsSet v ''fileca-key'' \<or>
        \<not> IsSet v ''fileca-key-passwd'') \<or>
     GetString v ''ca'' = ''kmsca'' \<and>
       (\<not> IsSet v ''kms-resource'' \<or> \<not> IsSet v ''kms-cert-chain-path'') \<or>
     GetString v ''ca'' = ''tinkca'' \<and>
       (\<not> IsSet v ''tink-kms-resource'' \<or> \<not> IsSet v ''tink-cert-chain-path'' \<or>
        \<not> IsSet v ''tink-keyset-path'')"
  proof -
    have "snd (checkCA v) \<noteq> None"
    proof
      assume none: "snd (checkCA v) = None"
      from checkCA_None [OF none] checkCA_complete [OF none] bad show False
        by (auto simp: )
    qed
    then obtain f where f: "snd (checkCA v) = Some f" by blast
    from startup_fatal_before_switch [OF cf f]
    have run: "runServeCmd w v0 =
        Fatal (case BindPFlags w of Some b \<Rightarrow> BindPFlagsFatal b | None \<Rightarrow> f) []"
      by (simp add: runServeCmd_def)
    then show ?thesis using f by (simp add: Fatal_def)
  qed
  from a b show ?thesis by blast
qed

text \<open>
  Four command lines at the example world: no \<^verbatim>\<open>--ca\<close>; \<^verbatim>\<open>--ca vaultca\<close>;
  \<^verbatim>\<open>--ca fileca\<close> with certificate and key but no password; \<^verbatim>\<open>--ca kmsca\<close> alone.
\<close>

theorem fatal_on_invalid_ca_witness:
  "runServeCmd (exampleArgs []) (entryViper (exampleArgs [])) = Fatal CaNotSet [] \<and>
   runServeCmd (exampleArgs [(''ca'', ''vaultca'')]) (entryViper (exampleArgs [(''ca'', ''vaultca'')])) =
     Fatal (NotAValidSelection ''vaultca'') [] \<and>
   runServeCmd
     (exampleArgs [(''ca'', ''fileca''), (''fileca-cert'', ''ca.pem''), (''fileca-key'', ''ca.key'')])
     (entryViper
       (exampleArgs [(''ca'', ''fileca''), (''fileca-cert'', ''ca.pem''), (''fileca-key'', ''ca.key'')])) =
     Fatal (MustBeSet ''fileca-key-passwd'' ''fileca'') [] \<and>
   runServeCmd (exampleArgs [(''ca'', ''kmsca'')]) (entryViper (exampleArgs [(''ca'', ''kmsca'')])) =
     Fatal (MustBeSet ''kms-resource'' ''kmsca'') [] \<and>
   exitCode (runServeCmd (exampleArgs []) (entryViper (exampleArgs []))) = 1 \<and>
   started (runServeCmd (exampleArgs []) (entryViper (exampleArgs []))) = []"
proof -
  have cf: "checkServeCmdConfigFile (exampleArgs args) (entryViper (exampleArgs args)) =
      Inr (entryViper (exampleArgs args))" for args
    by (simp add: checkServeCmdConfigFile_def exampleArgs_def exampleWorld_def)
  have bp: "BindPFlags (exampleArgs args) = None" for args
    by (simp add: exampleArgs_def exampleWorld_def)
  have run: "\<exists>f. snd (checkCA (entryViper (exampleArgs args))) = Some f \<and>
      runServeCmd (exampleArgs args) (entryViper (exampleArgs args)) = Fatal f [] \<and>
      exitCode (runServeCmd (exampleArgs args) (entryViper (exampleArgs args))) = 1 \<and>
      started (runServeCmd (exampleArgs args) (entryViper (exampleArgs args))) = []"
    if "GetString (entryViper (exampleArgs args)) ''ca'' = [] \<or>
        GetString (entryViper (exampleArgs args)) ''ca'' \<notin>
          {''googleca'', ''pkcs11ca'', ''fileca'', ''ephemeralca'', ''kmsca'', ''tinkca''} \<or>
        GetString (entryViper (exampleArgs args)) ''ca'' = ''fileca'' \<and>
          \<not> IsSet (entryViper (exampleArgs args)) ''fileca-key-passwd'' \<or>
        GetString (entryViper (exampleArgs args)) ''ca'' = ''kmsca'' \<and>
          \<not> IsSet (entryViper (exampleArgs args)) ''kms-resource''" for args
    using fatal_on_invalid_ca [where w = "exampleArgs args"
        and ?v0.0 = "entryViper (exampleArgs args)" and v = "entryViper (exampleArgs args)"]
      cf [of args] that
    unfolding bp by (simp; blast)
  have c1: "checkCA (entryViper (exampleArgs [])) = ([], Some CaNotSet)"
    by (simp add: checkCA_def example_defs)
  have c2: "checkCA (entryViper (exampleArgs [(''ca'', ''vaultca'')])) =
      ([], Some (NotAValidSelection ''vaultca''))"
    by (simp add: checkCA_def example_defs)
  have c3: "checkCA (entryViper (exampleArgs [(''ca'', ''fileca''), (''fileca-cert'', ''ca.pem''),
      (''fileca-key'', ''ca.key'')])) = ([], Some (MustBeSet ''fileca-key-passwd'' ''fileca''))"
    by (simp add: checkCA_def example_defs)
  have c4: "checkCA (entryViper (exampleArgs [(''ca'', ''kmsca'')])) =
      ([], Some (MustBeSet ''kms-resource'' ''kmsca''))"
    by (simp add: checkCA_def example_defs)
  have g1: "GetString (entryViper (exampleArgs [])) ''ca'' = []"
    by (simp add: example_defs)
  have g2: "GetString (entryViper (exampleArgs [(''ca'', ''vaultca'')])) ''ca'' = ''vaultca''"
    by (simp add: example_defs)
  have g3: "GetString (entryViper (exampleArgs [(''ca'', ''fileca''), (''fileca-cert'', ''ca.pem''),
      (''fileca-key'', ''ca.key'')])) ''ca'' = ''fileca'' \<and>
      \<not> IsSet (entryViper (exampleArgs [(''ca'', ''fileca''), (''fileca-cert'', ''ca.pem''),
      (''fileca-key'', ''ca.key'')])) ''fileca-key-passwd''"
    by (simp add: example_defs)
  have g4: "GetString (entryViper (exampleArgs [(''ca'', ''kmsca'')])) ''ca'' = ''kmsca'' \<and>
      \<not> IsSet (entryViper (exampleArgs [(''ca'', ''kmsca'')])) ''kms-resource''"
    by (simp add: example_defs)
  from run [of "[]"] g1 c1
  have r1: "runServeCmd (exampleArgs []) (entryViper (exampleArgs [])) = Fatal CaNotSet [] \<and>
      exitCode (runServeCmd (exampleArgs []) (entryViper (exampleArgs []))) = 1 \<and>
      started (runServeCmd (exampleArgs []) (entryViper (exampleArgs []))) = []"
    by auto
  from run [of "[(''ca'', ''vaultca'')]"] g2 c2
  have r2: "runServeCmd (exampleArgs [(''ca'', ''vaultca'')])
      (entryViper (exampleArgs [(''ca'', ''vaultca'')])) = Fatal (NotAValidSelection ''vaultca'') []"
    by auto
  from run [of "[(''ca'', ''fileca''), (''fileca-cert'', ''ca.pem''), (''fileca-key'', ''ca.key'')]"]
    g3 c3
  have r3: "runServeCmd
     (exampleArgs [(''ca'', ''fileca''), (''fileca-cert'', ''ca.pem''), (''fileca-key'', ''ca.key'')])
     (entryViper
       (exampleArgs [(''ca'', ''fileca''), (''fileca-cert'', ''ca.pem''), (''fileca-key'', ''ca.key'')])) =
     Fatal (MustBeSet ''fileca-key-passwd'' ''fileca'') []"
    by auto
  from run [of "[(''ca'', ''kmsca'')]"] g4 c4
  have r4: "runServeCmd (exampleArgs [(''ca'', ''kmsca'')])
      (entryViper (exampleArgs [(''ca'', ''kmsca'')])) = Fatal (MustBeSet ''kms-resource'' ''kmsca'') []"
    by auto
  from r1 r2 r3 r4 show ?thesis by blast
qed

subsection \<open>The recovery interceptor\<close>

text \<open>
  Claim C7. The recovery interceptor is the first of the chain that \<^verbatim>\<open>StartDuplexServer\<close>
  installs, hence the outermost: for every unary call that the duplex server hands to the
  chain, a panic of the handler or of any of the four other interceptors is recovered and
  answered with the error that \<^verbatim>\<open>panicRecoveryHandler\<close> returns. No call ends in a
  panic, so no call ends the server process.
\<close>

theorem recovery_interceptor_first:
  "hd (UnaryInterceptor (duplexNew v c port)) = Recovery_UnaryServerInterceptor \<and>
   (int (length msg) \<le> MaxRecvMsgSize (duplexNew v c port) \<longrightarrow>
      serveUnary w lib (duplexNew v c port) handler msg =
        (case ChainUnaryServer
                (map (interceptorOf w lib) (tl (UnaryInterceptor (duplexNew v c port))))
                msg handler of
           Panic p \<Rightarrow> RpcError (panicRecoveryHandler w p)
         | r \<Rightarrow> r)) \<and>
   (\<forall>p. serveUnary w lib (duplexNew v c port) handler msg \<noteq> Panic p) \<and>
   \<not> processEnds (serveUnary w lib (duplexNew v c port) handler msg)"
proof -
  define inner where "inner =
    ChainUnaryServer (map (interceptorOf w lib) (tl (UnaryInterceptor (duplexNew v c port))))
      msg handler"
  have first: "hd (UnaryInterceptor (duplexNew v c port)) = Recovery_UnaryServerInterceptor"
    by (simp add: duplexNew_def)
  have chain: "ChainUnaryServer (map (interceptorOf w lib) (UnaryInterceptor (duplexNew v c port)))
      msg handler = (case inner of Panic p \<Rightarrow> RpcError (panicRecoveryHandler w p) | r \<Rightarrow> r)"
    unfolding inner_def
    by (simp add: duplexNew_def interceptorOf_def recoveryInterceptor_def)
  have run: "int (length msg) \<le> MaxRecvMsgSize (duplexNew v c port) \<longrightarrow>
      serveUnary w lib (duplexNew v c port) handler msg =
        (case inner of Panic p \<Rightarrow> RpcError (panicRecoveryHandler w p) | r \<Rightarrow> r)"
    using chain by (simp add: serveUnary_def)
  have cases: "serveUnary w lib (duplexNew v c port) handler msg = RpcError ResourceExhausted \<or>
      serveUnary w lib (duplexNew v c port) handler msg =
        (case inner of Panic p \<Rightarrow> RpcError (panicRecoveryHandler w p) | r \<Rightarrow> r)"
    using chain by (simp add: serveUnary_def)
  have np: "\<forall>p. serveUnary w lib (duplexNew v c port) handler msg \<noteq> Panic p"
    using cases by (cases inner) auto
  then have alive: "\<not> processEnds (serveUnary w lib (duplexNew v c port) handler msg)"
    by (cases "serveUnary w lib (duplexNew v c port) handler msg") auto
  from first run np alive show ?thesis unfolding inner_def by blast
qed

text \<open>
  At the example world a panicking handler, and a logging interceptor that panics before
  it calls the handler, both end in the error of the recovery handler.
\<close>

theorem recovery_interceptor_first_witness:
  "serveUnary exampleWorld passOn (duplexNew exampleViper (FulcioConfig []) 8080)
     panickingHandler ''request'' = RpcError Unknown \<and>
   serveUnary exampleWorld
     (\<lambda>i. if i = Zap_UnaryServerInterceptor then (\<lambda>req handler. Panic ''logger'') else passOn i)
     (duplexNew exampleViper (FulcioConfig []) 8080) echoHandler ''request'' = RpcError Unknown \<and>
   \<not> processEnds (serveUnary exampleWorld passOn (duplexNew exampleViper (FulcioConfig []) 8080)
     panickingHandler ''request'')"
proof -
  define d where "d = duplexNew exampleViper (FulcioConfig []) 8080"
  define lib2 where "lib2 =
    (\<lambda>i. if i = Zap_UnaryServerInterceptor then (\<lambda>req handler. Panic ''logger'') else passOn i)"
  have small: "int (length ''request'') \<le> MaxRecvMsgSize d"
    by (simp add: d_def duplexNew_def maxMsgSize_sint)
  have inner1: "ChainUnaryServer (map (interceptorOf exampleWorld passOn) (tl (UnaryInterceptor d)))
      ''request'' panickingHandler = Panic ''nil pointer dereference''"
    by (simp add: d_def duplexNew_def interceptorOf_def passOn_def panickingHandler_def)
  have inner2: "ChainUnaryServer (map (interceptorOf exampleWorld lib2) (tl (UnaryInterceptor d)))
      ''request'' echoHandler = Panic ''logger''"
    by (simp add: d_def lib2_def duplexNew_def interceptorOf_def passOn_def)
  have rh: "panicRecoveryHandler exampleWorld p = Unknown" for p
    by (simp add: exampleWorld_def)
  note t1 = recovery_interceptor_first [of exampleViper "FulcioConfig []" 8080 "''request''"
      exampleWorld passOn panickingHandler, folded d_def]
  note t2 = recovery_interceptor_first [of exampleViper "FulcioConfig []" 8080 "''request''"
      exampleWorld lib2 echoHandler, folded d_def]
  from t1 small have "serveUnary exampleWorld passOn d panickingHandler ''request'' =
      (case ChainUnaryServer (map (interceptorOf exampleWorld passOn) (tl (UnaryInterceptor d)))
         ''request'' panickingHandler of
         Panic p \<Rightarrow> RpcError (panicRecoveryHandler exampleWorld p) | r \<Rightarrow> r)"
    by blast
  then have r1: "serveUnary exampleWorld passOn d panickingHandler ''request'' = RpcError Unknown"
    by (simp add: inner1 rh)
  from t2 small have "serveUnary exampleWorld lib2 d echoHandler ''request'' =
      (case ChainUnaryServer (map (interceptorOf exampleWorld lib2) (tl (UnaryInterceptor d)))
         ''request'' echoHandler of
         Panic p \<Rightarrow> RpcError (panicRecoveryHandler exampleWorld p) | r \<Rightarrow> r)"
    by blast
  then have r2: "serveUnary exampleWorld lib2 d echoHandler ''request'' = RpcError Unknown"
    by (simp add: inner2 rh)
  from t1 have r3: "\<not> processEnds (serveUnary exampleWorld passOn d panickingHandler ''request'')"
    by blast
  from r1 r2 r3 show ?thesis unfolding d_def lib2_def by blast
qed

subsection \<open>The default client signing algorithms\<close>

text \<open>
  Claim C3. The algorithms from which the default of \<^verbatim>\<open>client-signing-algorithms\<close> is
  built are exactly seven, without repetition: ECDSA P-256 with SHA-256, ECDSA P-384 with
  SHA-384, ECDSA P-521 with SHA-512, RSA PKCS#1 v1.5 with 2048-, 3072- and 4096-bit keys,
  each with SHA-256, and Ed25519. When the flags are declared without error, the default
  of the flag is the list of their flag strings in that order, and it is the value of the
  setting whenever the operator has not set it.
\<close>

theorem default_client_signing_algorithms:
  "map algorithm_of defaultAllowedAlgorithms =
     [Some (ECDSA P256 SHA_256), Some (ECDSA P384 SHA_384), Some (ECDSA P521 SHA_512),
      Some (RSA_PKCS1V15 2048 SHA_256), Some (RSA_PKCS1V15 3072 SHA_256),
      Some (RSA_PKCS1V15 4096 SHA_256), Some ED25519] \<and>
   distinct defaultAllowedAlgorithms \<and>
   (newServeCmd fmt sock = Inr flags \<longrightarrow>
      (\<exists>strs. map fmt defaultAllowedAlgorithms = map Inr strs \<and>
         map_of flags ''client-signing-algorithms'' = Some (FStringSlice strs) \<and>
         (\<forall>v. flagDefaults v = flags \<and> \<not> IsSet v ''client-signing-algorithms'' \<longrightarrow>
            GetStringSlice v ''client-signing-algorithms'' = strs)))"
proof -
  have a: "map algorithm_of defaultAllowedAlgorithms =
     [Some (ECDSA P256 SHA_256), Some (ECDSA P384 SHA_384), Some (ECDSA P521 SHA_512),
      Some (RSA_PKCS1V15 2048 SHA_256), Some (RSA_PKCS1V15 3072 SHA_256),
      Some (RSA_PKCS1V15 4096 SHA_256), Some ED25519]"
    by (simp add: defaultAllowedAlgorithms_def)
  have b: "distinct defaultAllowedAlgorithms"
    by (simp add: defaultAllowedAlgorithms_def)
  have c: "\<exists>strs. map fmt defaultAllowedAlgorithms = map Inr strs \<and>
         map_of flags ''client-signing-algorithms'' = Some (FStringSlice strs) \<and>
         (\<forall>v. flagDefaults v = flags \<and> \<not> IsSet v ''client-signing-algorithms'' \<longrightarrow>
            GetStringSlice v ''client-signing-algorithms'' = strs)"
    if ok: "newServeCmd fmt sock = Inr flags"
  proof -
    from ok obtain strs where
      build: "buildDefaultClientSigningAlgorithms fmt defaultAllowedAlgorithms = Inr strs"
      and flags: "flags = serveFlags sock strs"
      by (auto simp: newServeCmd_def split: sum.splits)
    from build buildLoop_Inr [of fmt defaultAllowedAlgorithms "[]" strs]
    have m: "map fmt defaultAllowedAlgorithms = map Inr strs"
      by (simp add: buildDefaultClientSigningAlgorithms_def)
    have d: "map_of flags ''client-signing-algorithms'' = Some (FStringSlice strs)"
      by (simp add: flags serveFlags_def)
    have e: "GetStringSlice v ''client-signing-algorithms'' = strs"
      if "flagDefaults v = flags" and "\<not> IsSet v ''client-signing-algorithms''" for v
      using that d
      by (simp add: GetStringSlice_def find_value_def IsSet_def normalizeName_def)
    from m d e show ?thesis by blast
  qed
  from a b c show ?thesis by blast
qed

text \<open>
  With the example formatter the seven flag strings are the default, and the registry of
  the server started without \<^verbatim>\<open>--client-signing-algorithms\<close> holds the seven algorithms.
\<close>

theorem default_client_signing_algorithms_witness:
  "newServeCmd exampleFormat ''socket'' =
     Inr (serveFlags ''socket''
       [''ecdsa-sha2-256-nistp256'', ''ecdsa-sha2-384-nistp384'', ''ecdsa-sha2-512-nistp521'',
        ''rsa-sign-pkcs1-2048-sha256'', ''rsa-sign-pkcs1-3072-sha256'',
        ''rsa-sign-pkcs1-4096-sha256'', ''ed25519'']) \<and>
   map_of
     (serveFlags ''socket''
       [''ecdsa-sha2-256-nistp256'', ''ecdsa-sha2-384-nistp384'', ''ecdsa-sha2-512-nistp521'',
        ''rsa-sign-pkcs1-2048-sha256'', ''rsa-sign-pkcs1-3072-sha256'',
        ''rsa-sign-pkcs1-4096-sha256'', ''ed25519''])
     ''client-signing-algorithms'' =
     Some (FStringSlice
       [''ecdsa-sha2-256-nistp256'', ''ecdsa-sha2-384-nistp384'', ''ecdsa-sha2-512-nistp521'',
        ''rsa-sign-pkcs1-2048-sha256'', ''rsa-sign-pkcs1-3072-sha256'',
        ''rsa-sign-pkcs1-4096-sha256'', ''ed25519'']) \<and>
   (\<exists>s. startup exampleWorld exampleViper = Inr s \<and>
      algorithmRegistry s = defaultAllowedAlgorithms)"
proof -
  define names where "names =
       [''ecdsa-sha2-256-nistp256'', ''ecdsa-sha2-384-nistp384'', ''ecdsa-sha2-512-nistp521'',
        ''rsa-sign-pkcs1-2048-sha256'', ''rsa-sign-pkcs1-3072-sha256'',
        ''rsa-sign-pkcs1-4096-sha256'', ''ed25519'']"
  have cmd: "newServeCmd exampleFormat ''socket'' = Inr (serveFlags ''socket'' names)"
    unfolding names_def
    by (simp add: newServeCmd_def buildDefaultClientSigningAlgorithms_def
        defaultAllowedAlgorithms_def)
  from default_client_signing_algorithms [of exampleFormat "''socket''"
      "serveFlags ''socket'' names"] cmd
  obtain strs where m: "map exampleFormat defaultAllowedAlgorithms = map Inr strs"
    and d: "map_of (serveFlags ''socket'' names) ''client-signing-algorithms'' =
      Some (FStringSlice strs)"
    by blast
  from m have "strs = names"
    unfolding names_def by (auto simp: defaultAllowedAlgorithms_def)
  with d have flag: "map_of (serveFlags ''socket'' names) ''client-signing-algorithms'' =
      Some (FStringSlice names)" by simp
  have reg: "\<exists>s. startup exampleWorld exampleViper = Inr s \<and>
      algorithmRegistry s = defaultAllowedAlgorithms"
    by (simp add: example_startup)
  from cmd flag reg show ?thesis unfolding names_def by blast
qed

end
